theory Spec2Isabelle
  imports Complex_Main
begin

section \<open>JavaScript values, strings and thrown values\<close>

text \<open>
  A JavaScript string is a sequence of UTF-16 code units; \<open>length\<close>, \<open>trim\<close>, the regular
  expressions and \<open>replace\<close> of the source all work on code units. A code unit is modelled
  as a natural number (the real ones are below 65536), and \<open>js\<close> turns an ASCII literal
  of the source into its code units.
\<close>

type_synonym jschar = nat
type_synonym jsstring = "jschar list"

definition js :: "string \<Rightarrow> jsstring" where
  "js s = map of_char s"

text \<open>
  JavaScript numbers: the three non-finite doubles and the finite ones, the latter taken
  inside the reals (every finite double is a real number).
\<close>

datatype jsnumber = NaN | PosInfinity | NegInfinity | Num real

datatype jsval = JUndefined | JNull | JBool bool | JNum jsnumber | JStr jsstring | JObject

text \<open>src/src/errors/index.ts: the enum \<open>ErrorCodes\<close>.\<close>

datatype ErrorCodes =
    MODEL_LOAD_FAILED
  | DATABASE_CONNECTION_FAILED
  | TABLE_CREATION_FAILED
  | EMBEDDING_FAILED
  | VECTOR_SAVE_FAILED
  | SEARCH_FAILED
  | INVALID_INPUT

text \<open>
  Anything a JavaScript \<open>throw\<close> (or a rejected promise) can carry: a \<open>RAGError\<close>
  (class \<open>RAGError extends Error\<close>, with its message, code and optional cause), another
  \<open>Error\<close> object (name and message), or a value that is no \<open>Error\<close> at all.
\<close>

datatype jsexn =
    RAGError (message: jsstring) (code: ErrorCodes) (cause: "jsexn option")
  | JSError (name: jsstring) (message: jsstring)
  | Thrown jsval

fun instanceofRAGError :: "jsexn \<Rightarrow> bool" where
  "instanceofRAGError (RAGError m c x) = True"
| "instanceofRAGError (JSError n m) = False"
| "instanceofRAGError (Thrown v) = False"

fun instanceofError :: "jsexn \<Rightarrow> bool" where
  "instanceofError (RAGError m c x) = True"
| "instanceofError (JSError n m) = True"
| "instanceofError (Thrown v) = False"

text \<open>\<open>error instanceof Error ? error.message : 'Unknown error'\<close>\<close>

definition messageOrUnknown :: "jsexn \<Rightarrow> jsstring" where
  "messageOrUnknown e = (if instanceofError e then message e else js ''Unknown error'')"

text \<open>\<open>error instanceof Error ? error : undefined\<close>\<close>

definition errorOrUndefined :: "jsexn \<Rightarrow> jsexn option" where
  "errorOrUndefined e = (if instanceofError e then Some e else None)"

text \<open>
  Reading \<open>v.length\<close>: a \<open>TypeError\<close> on \<open>null\<close> and \<open>undefined\<close>, the number of code
  units of a string, \<open>undefined\<close> on the other primitives. The message is the one Node.js
  (V8) gives.
\<close>

fun typeofName :: "jsval \<Rightarrow> jsstring" where
  "typeofName JUndefined = js ''undefined''"
| "typeofName JNull = js ''null''"
| "typeofName (JBool b) = js ''boolean''"
| "typeofName (JNum n) = js ''number''"
| "typeofName (JStr s) = js ''string''"
| "typeofName JObject = js ''object''"

definition cannotReadLength :: "jsval \<Rightarrow> jsexn" where
  "cannotReadLength v =
     JSError (js ''TypeError'')
       (js ''Cannot read properties of '' @ typeofName v @ js '' (reading 'length')'')"

fun readLength :: "jsval \<Rightarrow> jsexn + jsval" where
  "readLength JUndefined = Inl (cannotReadLength JUndefined)"
| "readLength JNull = Inl (cannotReadLength JNull)"
| "readLength (JStr s) = Inr (JNum (Num (of_nat (length s))))"
| "readLength (JBool b) = Inr JUndefined"
| "readLength (JNum n) = Inr JUndefined"
| "readLength JObject = Inr JUndefined"

section \<open>InputValidator (src/unnamed/part_001, imported as utils/validation)\<close>

text \<open>
  \<open>String.prototype.trim\<close> removes the ECMAScript white space and line terminator code
  units from both ends.
\<close>

definition isWhiteSpace :: "jschar \<Rightarrow> bool" where
  "isWhiteSpace c \<longleftrightarrow>
     c = 9 \<or> c = 10 \<or> c = 11 \<or> c = 12 \<or> c = 13 \<or> c = 32 \<or> c = 160 \<or> c = 5760 \<or>
     (8192 \<le> c \<and> c \<le> 8202) \<or> c = 8232 \<or> c = 8233 \<or> c = 8239 \<or> c = 8287 \<or>
     c = 12288 \<or> c = 65279"

definition trim :: "jsstring \<Rightarrow> jsstring" where
  "trim s = rev (dropWhile isWhiteSpace (rev (dropWhile isWhiteSpace s)))"

definition MAX_TABLE_NAME_LENGTH :: nat where
  "MAX_TABLE_NAME_LENGTH = 64"

definition MAX_TEXT_LENGTH :: nat where
  "MAX_TEXT_LENGTH = 1000000"

definition MAX_SEARCH_QUANTITY :: real where
  "MAX_SEARCH_QUANTITY = 1000"

definition MIN_SEARCH_QUANTITY :: real where
  "MIN_SEARCH_QUANTITY = 1"

definition MAX_SAFE_INTEGER :: real where
  "MAX_SAFE_INTEGER = 9007199254740991"

text \<open>The character classes of \<open>/^[a-zA-Z][a-zA-Z0-9_-]*$/\<close>.\<close>

definition isAsciiLetter :: "jschar \<Rightarrow> bool" where
  "isAsciiLetter c \<longleftrightarrow> (97 \<le> c \<and> c \<le> 122) \<or> (65 \<le> c \<and> c \<le> 90)"

definition isTableNameChar :: "jschar \<Rightarrow> bool" where
  "isTableNameChar c \<longleftrightarrow> isAsciiLetter c \<or> (48 \<le> c \<and> c \<le> 57) \<or> c = 95 \<or> c = 45"

fun TABLE_NAME_REGEX_test :: "jsstring \<Rightarrow> bool" where
  "TABLE_NAME_REGEX_test [] = False"
| "TABLE_NAME_REGEX_test (c # cs) = (isAsciiLetter c \<and> list_all isTableNameChar cs)"

text \<open>
  \<open>toUpperCase\<close> on the code units it is applied to in this program: it is only called on
  a name that passed \<open>TABLE_NAME_REGEX\<close>, whose code units are ASCII, where it maps
  \<open>a\<close>..\<open>z\<close> to \<open>A\<close>..\<open>Z\<close> and leaves every other code unit as it is.
\<close>

definition toUpperCaseChar :: "jschar \<Rightarrow> jschar" where
  "toUpperCaseChar c = (if 97 \<le> c \<and> c \<le> 122 then c - 32 else c)"

definition toUpperCase :: "jsstring \<Rightarrow> jsstring" where
  "toUpperCase s = map toUpperCaseChar s"

definition reservedWords :: "jsstring list" where
  "reservedWords =
     [js ''SELECT'', js ''INSERT'', js ''UPDATE'', js ''DELETE'', js ''DROP'', js ''CREATE'',
      js ''ALTER'', js ''INDEX'', js ''TABLE'', js ''DATABASE'', js ''SCHEMA'', js ''VIEW'',
      js ''TRIGGER'', js ''PROCEDURE'', js ''FUNCTION'', js ''UNION'', js ''JOIN'', js ''WHERE'',
      js ''ORDER'', js ''GROUP'', js ''HAVING'', js ''LIMIT'']"

text \<open>
  \<open>validateText(text, fieldName = 'text')\<close>; a caller that leaves \<open>fieldName\<close> out passes
  \<open>js ''text''\<close> here.
\<close>

definition validateText :: "jsval \<Rightarrow> jsstring \<Rightarrow> jsexn + jsstring" where
  "validateText text fieldName =
     (case text of
        JStr s \<Rightarrow>
          if length s = 0 then
            Inl (RAGError (fieldName @ js '' cannot be empty'') INVALID_INPUT None)
          else
            let trimmedText = trim s in
            if length trimmedText = 0 then
              Inl (RAGError (fieldName @ js '' cannot be empty'') INVALID_INPUT None)
            else if length trimmedText > MAX_TEXT_LENGTH then
              Inl (RAGError (fieldName @ js '' exceeds maximum length of 1000000 characters'')
                     INVALID_INPUT None)
            else Inr trimmedText
      | _ \<Rightarrow> Inl (RAGError (fieldName @ js '' must be a string'') INVALID_INPUT None))"

definition validateTableName :: "jsval \<Rightarrow> jsexn + jsstring" where
  "validateTableName tablename =
     (case tablename of
        JStr s \<Rightarrow>
          if length s = 0 then
            Inl (RAGError (js ''Table name cannot be empty'') INVALID_INPUT None)
          else
            let trimmedTableName = trim s in
            if length trimmedTableName = 0 then
              Inl (RAGError (js ''Table name cannot be empty or whitespace only'')
                     INVALID_INPUT None)
            else if length trimmedTableName > MAX_TABLE_NAME_LENGTH then
              Inl (RAGError (js ''Invalid table name format'') INVALID_INPUT None)
            else if \<not> TABLE_NAME_REGEX_test trimmedTableName then
              Inl (RAGError (js ''Invalid table name format'') INVALID_INPUT None)
            else if toUpperCase trimmedTableName \<in> set reservedWords then
              Inl (RAGError (js ''Table name '' @ [39] @ trimmedTableName @ [39] @
                               js '' is a reserved SQL keyword'')
                     INVALID_INPUT None)
            else Inr trimmedTableName
      | _ \<Rightarrow> Inl (RAGError (js ''Table name must be a string'') INVALID_INPUT None))"

text \<open>\<open>Number.isInteger\<close>\<close>

fun isInteger :: "jsnumber \<Rightarrow> bool" where
  "isInteger (Num q) = (of_int \<lfloor>q\<rfloor> = q)"
| "isInteger NaN = False"
| "isInteger PosInfinity = False"
| "isInteger NegInfinity = False"

text \<open>The comparisons \<open>n < k\<close> and \<open>n > k\<close> of a number with a finite constant.\<close>

fun numLess :: "jsnumber \<Rightarrow> real \<Rightarrow> bool" where
  "numLess (Num q) k = (q < k)"
| "numLess NegInfinity k = True"
| "numLess PosInfinity k = False"
| "numLess NaN k = False"

fun numGreater :: "jsnumber \<Rightarrow> real \<Rightarrow> bool" where
  "numGreater (Num q) k = (q > k)"
| "numGreater PosInfinity k = True"
| "numGreater NegInfinity k = False"
| "numGreater NaN k = False"

definition validateId :: "jsval \<Rightarrow> jsexn + jsnumber" where
  "validateId ident =
     (case ident of
        JNum n \<Rightarrow>
          if \<not> isInteger n then
            Inl (RAGError (js ''ID must be a non-negative integer'') INVALID_INPUT None)
          else if numLess n 0 then
            Inl (RAGError (js ''ID must be a non-negative integer'') INVALID_INPUT None)
          else if numGreater n MAX_SAFE_INTEGER then
            Inl (RAGError (js ''ID exceeds maximum safe integer value'') INVALID_INPUT None)
          else Inr n
      | _ \<Rightarrow> Inl (RAGError (js ''ID must be a number'') INVALID_INPUT None))"

definition validateSearchQuantity :: "jsval \<Rightarrow> jsexn + jsnumber" where
  "validateSearchQuantity qty =
     (case qty of
        JNum n \<Rightarrow>
          if \<not> isInteger n then
            Inl (RAGError (js ''Quantity must be a positive integer'') INVALID_INPUT None)
          else if numLess n MIN_SEARCH_QUANTITY then
            Inl (RAGError (js ''Quantity must be a positive integer'') INVALID_INPUT None)
          else if numGreater n MAX_SEARCH_QUANTITY then
            Inl (RAGError (js ''Quantity cannot exceed 1000 results'') INVALID_INPUT None)
          else Inr n
      | _ \<Rightarrow> Inl (RAGError (js ''Quantity must be a number'') INVALID_INPUT None))"

text \<open>\<open>text.replace(/[\x00-\x08\x0B\x0C\x0E-\x1F\x7F]/g, '')\<close>\<close>

definition isControlChar :: "jschar \<Rightarrow> bool" where
  "isControlChar c \<longleftrightarrow> c \<le> 8 \<or> c = 11 \<or> c = 12 \<or> (14 \<le> c \<and> c \<le> 31) \<or> c = 127"

definition sanitizeText :: "jsstring \<Rightarrow> jsstring" where
  "sanitizeText text = filter (\<lambda>c. \<not> isControlChar c) text"

section \<open>Requests and the request validators of the orchestrator\<close>

text \<open>
  A request is a JavaScript object: a property that was never set reads as \<open>undefined\<close>.
  The validators assign the validated values back to the request (\<open>request.text = ...\<close>);
  the updated request is returned beside the outcome.
\<close>

type_synonym jsobject = "string \<Rightarrow> jsval"

definition emptyObject :: jsobject where
  "emptyObject = (\<lambda>p. JUndefined)"

text \<open>The truthiness test of \<open>if (v)\<close> and \<open>a && b\<close>.\<close>

fun truthy :: "jsval \<Rightarrow> bool" where
  "truthy JUndefined = False"
| "truthy JNull = False"
| "truthy (JBool b) = b"
| "truthy (JNum n) = (n \<noteq> NaN \<and> n \<noteq> Num 0)"
| "truthy (JStr s) = (s \<noteq> [])"
| "truthy JObject = True"

text \<open>src/src/index.ts, \<open>RAGModule.validateSaveRequest\<close>.\<close>

definition validateSaveRequest :: "jsobject \<Rightarrow> (jsexn + unit) \<times> jsobject" where
  "validateSaveRequest request =
     (case validateText (request ''text'') (js ''text'') of
        Inl e \<Rightarrow> (Inl e, request)
      | Inr t \<Rightarrow>
          let request0 = request(''text'' := JStr t);
              request1 = request0(''text'' := JStr (sanitizeText t)) in
          (case validateId (request1 ''id'') of
             Inl e \<Rightarrow> (Inl e, request1)
           | Inr i \<Rightarrow>
               let request2 = request1(''id'' := JNum i) in
               (case validateTableName (request2 ''tablename'') of
                  Inl e \<Rightarrow> (Inl e, request2)
                | Inr n \<Rightarrow> (Inr (), request2(''tablename'' := JStr n)))))"

text \<open>\<open>RAGModule.validateSearchRequest\<close>, with the field name \<open>'Search text'\<close>.\<close>

definition validateSearchRequest :: "jsobject \<Rightarrow> (jsexn + unit) \<times> jsobject" where
  "validateSearchRequest request =
     (case validateText (request ''text'') (js ''Search text'') of
        Inl e \<Rightarrow> (Inl e, request)
      | Inr t \<Rightarrow>
          let request0 = request(''text'' := JStr t);
              request1 = request0(''text'' := JStr (sanitizeText t)) in
          (case validateTableName (request1 ''tablename'') of
             Inl e \<Rightarrow> (Inl e, request1)
           | Inr n \<Rightarrow>
               let request2 = request1(''tablename'' := JStr n) in
               (case validateSearchQuantity (request2 ''qty'') of
                  Inl e \<Rightarrow> (Inl e, request2)
                | Inr q \<Rightarrow> (Inr (), request2(''qty'' := JNum q)))))"

text \<open>\<open>RAGModule.validateEmbedRequest\<close> (the hybrid module has the same method).\<close>

definition validateEmbedRequest :: "jsobject \<Rightarrow> (jsexn + unit) \<times> jsobject" where
  "validateEmbedRequest request =
     (case validateText (request ''text'') (js ''text'') of
        Inl e \<Rightarrow> (Inl e, request)
      | Inr t \<Rightarrow>
          let request0 = request(''text'' := JStr t) in
          (Inr (), request0(''text'' := JStr (sanitizeText t))))"

section \<open>The collaborators\<close>

text \<open>
  The orchestrator holds an embedding service and a vector database. Their methods are
  parameters of the model: each takes the arguments the orchestrator passes and the
  collaborator's own state, and gives back the value it resolves to or the value it
  rejects with, and its new state. A vector is a \<open>number[]\<close>.
\<close>

type_synonym vector = "jsnumber list"

record ('e, 'd) services =
  embeddingInitialize :: "jsstring \<Rightarrow> 'e \<Rightarrow> (jsexn + unit) \<times> 'e"
  embeddingEmbed :: "jsval \<Rightarrow> 'e \<Rightarrow> (jsexn + vector) \<times> 'e"
  embeddingClose :: "'e \<Rightarrow> (jsexn + unit) \<times> 'e"
  databaseInitialize :: "jsstring \<Rightarrow> 'd \<Rightarrow> (jsexn + unit) \<times> 'd"
  createTableIfNotExists :: "jsval \<Rightarrow> 'd \<Rightarrow> (jsexn + unit) \<times> 'd"
  insertVector :: "jsval \<Rightarrow> jsval \<Rightarrow> vector \<Rightarrow> 'd \<Rightarrow> (jsexn + bool) \<times> 'd"
  searchSimilar :: "jsval \<Rightarrow> vector \<Rightarrow> jsval \<Rightarrow> 'd \<Rightarrow> (jsexn + jsval list) \<times> 'd"
  databaseClose :: "'d \<Rightarrow> (jsexn + unit) \<times> 'd"

text \<open>
  What a test double records: which collaborator method was invoked, in order, with the
  arguments that are plain values.
\<close>

datatype call =
    EmbeddingInitialize jsstring
  | EmbeddingEmbed jsval
  | EmbeddingClose
  | DatabaseInitialize jsstring
  | CreateTableIfNotExists jsval
  | InsertVector jsval jsval vector
  | SearchSimilar jsval vector jsval
  | DatabaseClose
  | MysqlInitialize
  | CreateDocumentsTable jsval
  | InsertDocument jsval
  | GetDocumentsByIds jsval "jsval list"
  | MysqlUpdateDocument jsval jsval
  | MysqlDeleteDocument jsval jsval
  | MysqlClose

fun isVectorStoreWrite :: "call \<Rightarrow> bool" where
  "isVectorStoreWrite (CreateTableIfNotExists t) = True"
| "isVectorStoreWrite (InsertVector t i v) = True"
| "isVectorStoreWrite c = False"

fun isVectorStoreCall :: "call \<Rightarrow> bool" where
  "isVectorStoreCall (DatabaseInitialize p) = True"
| "isVectorStoreCall (CreateTableIfNotExists t) = True"
| "isVectorStoreCall (InsertVector t i v) = True"
| "isVectorStoreCall (SearchSimilar t v k) = True"
| "isVectorStoreCall DatabaseClose = True"
| "isVectorStoreCall c = False"

fun isInitializeCall :: "call \<Rightarrow> bool" where
  "isInitializeCall (EmbeddingInitialize p) = True"
| "isInitializeCall (DatabaseInitialize p) = True"
| "isInitializeCall MysqlInitialize = True"
| "isInitializeCall c = False"

fun isCloseCall :: "call \<Rightarrow> bool" where
  "isCloseCall EmbeddingClose = True"
| "isCloseCall DatabaseClose = True"
| "isCloseCall MysqlClose = True"
| "isCloseCall c = False"

text \<open>
  The \<open>catch\<close> block that the orchestrator's methods share:
  \<^verbatim>\<open>if (error instanceof RAGError) { throw error; }
  throw new RAGError(`<prefix>${error instanceof Error ? error.message : 'Unknown error'}`,
                     <code>, error instanceof Error ? error : undefined);\<close>
\<close>

definition rethrowOrWrap :: "jsstring \<Rightarrow> ErrorCodes \<Rightarrow> jsexn \<Rightarrow> jsexn" where
  "rethrowOrWrap prefix c error =
     (if instanceofRAGError error then error
      else RAGError (prefix @ messageOrUnknown error) c (errorOrUndefined error))"

text \<open>
  The \<open>catch\<close> block without the \<open>instanceof RAGError\<close> test, which wraps whatever
  was thrown.
\<close>

definition wrapAlways :: "jsstring \<Rightarrow> ErrorCodes \<Rightarrow> jsexn \<Rightarrow> jsexn" where
  "wrapAlways prefix c error =
     RAGError (prefix @ messageOrUnknown error) c (errorOrUndefined error)"

section \<open>RAGModule (src/src/index.ts)\<close>

record ('e, 'd) RAGModule =
  modelPath :: jsstring
  databasePath :: jsstring
  initialized :: bool
  embeddingService :: 'e
  databaseService :: 'd
  calls :: "call list"

definition notInitialized :: jsexn where
  "notInitialized = RAGError (js ''RAG module not initialized'') INVALID_INPUT None"

text \<open>
  The calls to the collaborators, each recorded and each updating its collaborator. They
  are stated for every extension of the two records, so that the hybrid module, which
  holds the same two collaborators and a relational database, uses them too.
\<close>

definition callEmbeddingInitialize ::
  "('e, 'd, 'y) services_scheme \<Rightarrow> ('e, 'd, 'z) RAGModule_scheme \<Rightarrow> (jsexn + unit) \<times> ('e, 'd, 'z) RAGModule_scheme" where
  "callEmbeddingInitialize S m =
     (case embeddingInitialize S (modelPath m) (embeddingService m) of
        (r, e') \<Rightarrow> (r, m\<lparr>embeddingService := e',
                             calls := calls m @ [EmbeddingInitialize (modelPath m)]\<rparr>))"

definition callDatabaseInitialize ::
  "('e, 'd, 'y) services_scheme \<Rightarrow> ('e, 'd, 'z) RAGModule_scheme \<Rightarrow> (jsexn + unit) \<times> ('e, 'd, 'z) RAGModule_scheme" where
  "callDatabaseInitialize S m =
     (case databaseInitialize S (databasePath m) (databaseService m) of
        (r, d') \<Rightarrow> (r, m\<lparr>databaseService := d',
                             calls := calls m @ [DatabaseInitialize (databasePath m)]\<rparr>))"

definition callEmbeddingClose ::
  "('e, 'd, 'y) services_scheme \<Rightarrow> ('e, 'd, 'z) RAGModule_scheme \<Rightarrow> (jsexn + unit) \<times> ('e, 'd, 'z) RAGModule_scheme" where
  "callEmbeddingClose S m =
     (case embeddingClose S (embeddingService m) of
        (r, e') \<Rightarrow> (r, m\<lparr>embeddingService := e', calls := calls m @ [EmbeddingClose]\<rparr>))"

definition callDatabaseClose ::
  "('e, 'd, 'y) services_scheme \<Rightarrow> ('e, 'd, 'z) RAGModule_scheme \<Rightarrow> (jsexn + unit) \<times> ('e, 'd, 'z) RAGModule_scheme" where
  "callDatabaseClose S m =
     (case databaseClose S (databaseService m) of
        (r, d') \<Rightarrow> (r, m\<lparr>databaseService := d', calls := calls m @ [DatabaseClose]\<rparr>))"

definition callEmbed ::
  "('e, 'd, 'y) services_scheme \<Rightarrow> jsval \<Rightarrow> ('e, 'd, 'z) RAGModule_scheme \<Rightarrow> (jsexn + vector) \<times> ('e, 'd, 'z) RAGModule_scheme" where
  "callEmbed S text m =
     (case embeddingEmbed S text (embeddingService m) of
        (r, e') \<Rightarrow> (r, m\<lparr>embeddingService := e', calls := calls m @ [EmbeddingEmbed text]\<rparr>))"

definition callCreateTableIfNotExists ::
  "('e, 'd, 'y) services_scheme \<Rightarrow> jsval \<Rightarrow> ('e, 'd, 'z) RAGModule_scheme \<Rightarrow> (jsexn + unit) \<times> ('e, 'd, 'z) RAGModule_scheme" where
  "callCreateTableIfNotExists S tablename m =
     (case createTableIfNotExists S tablename (databaseService m) of
        (r, d') \<Rightarrow> (r, m\<lparr>databaseService := d',
                             calls := calls m @ [CreateTableIfNotExists tablename]\<rparr>))"

definition callInsertVector ::
  "('e, 'd, 'y) services_scheme \<Rightarrow> jsval \<Rightarrow> jsval \<Rightarrow> vector \<Rightarrow> ('e, 'd, 'z) RAGModule_scheme \<Rightarrow>
     (jsexn + bool) \<times> ('e, 'd, 'z) RAGModule_scheme" where
  "callInsertVector S tablename ident v m =
     (case insertVector S tablename ident v (databaseService m) of
        (r, d') \<Rightarrow> (r, m\<lparr>databaseService := d',
                             calls := calls m @ [InsertVector tablename ident v]\<rparr>))"

definition callSearchSimilar ::
  "('e, 'd, 'y) services_scheme \<Rightarrow> jsval \<Rightarrow> vector \<Rightarrow> jsval \<Rightarrow> ('e, 'd, 'z) RAGModule_scheme \<Rightarrow>
     (jsexn + jsval list) \<times> ('e, 'd, 'z) RAGModule_scheme" where
  "callSearchSimilar S tablename v limit m =
     (case searchSimilar S tablename v limit (databaseService m) of
        (r, d') \<Rightarrow> (r, m\<lparr>databaseService := d',
                             calls := calls m @ [SearchSimilar tablename v limit]\<rparr>))"

subsection \<open>SQLiteVectorSearchService (src/src/services/vectorSearch.ts)\<close>

text \<open>
  \<open>validateSearchInputs\<close>. \<open>tablename.trim()\<close> on a truthy value that is no string is a
  \<open>TypeError\<close>; the regular expression is applied to the name as it is, not trimmed.
\<close>

definition validateSearchInputs :: "jsval \<Rightarrow> vector \<Rightarrow> jsval \<Rightarrow> jsexn + unit" where
  "validateSearchInputs tablename queryVector limit =
     (if \<not> truthy tablename then
        Inl (RAGError (js ''Table name cannot be empty'') INVALID_INPUT None)
      else
        (case tablename of
           JStr s \<Rightarrow>
             if length (trim s) = 0 then
               Inl (RAGError (js ''Table name cannot be empty'') INVALID_INPUT None)
             else if \<not> TABLE_NAME_REGEX_test s \<or> length s > 64 then
               Inl (RAGError (js ''Invalid table name format'') INVALID_INPUT None)
             else if length queryVector = 0 then
               Inl (RAGError (js ''Query vector must be a non-empty array'') INVALID_INPUT None)
             else if \<not> list_all (\<lambda>val. val \<noteq> NaN) queryVector then
               Inl (RAGError (js ''Query vector must contain only valid numbers'')
                      INVALID_INPUT None)
             else
               (case limit of
                  JNum n \<Rightarrow>
                    if \<not> isInteger n \<or> \<not> numGreater n 0 then
                      Inl (RAGError (js ''Limit must be a positive integer'') INVALID_INPUT None)
                    else if numGreater n 1000 then
                      Inl (RAGError (js ''Limit cannot exceed 1000 results'') INVALID_INPUT None)
                    else Inr ()
                | _ \<Rightarrow> Inl (RAGError (js ''Limit must be a positive integer'') INVALID_INPUT None))
         | _ \<Rightarrow> Inl (JSError (js ''TypeError'') (js ''tablename.trim is not a function''))))"

definition vectorSearch ::
  "('e, 'd, 'y) services_scheme \<Rightarrow> jsval \<Rightarrow> vector \<Rightarrow> jsval \<Rightarrow> ('e, 'd, 'z) RAGModule_scheme \<Rightarrow>
     (jsexn + jsval list) \<times> ('e, 'd, 'z) RAGModule_scheme" where
  "vectorSearch S tablename queryVector limit m =
     (case validateSearchInputs tablename queryVector limit of
        Inl error \<Rightarrow> (Inl (rethrowOrWrap (js ''Vector search failed: '') SEARCH_FAILED error), m)
      | Inr u \<Rightarrow>
          (case callSearchSimilar S tablename queryVector limit m of
             (Inl error, m1) \<Rightarrow>
               (Inl (rethrowOrWrap (js ''Vector search failed: '') SEARCH_FAILED error), m1)
           | (Inr results, m1) \<Rightarrow> (Inr results, m1)))"

subsection \<open>embed, save, search\<close>

text \<open>
  Each method first tests the flag, then evaluates the arguments of its
  \<open>logger.debug\<close> call (which reads \<open>request.text.length\<close>), and only then enters its
  \<open>try\<close> block. \<open>embedTry\<close>, \<open>saveTry\<close> and \<open>searchTry\<close> are the \<open>try\<close> blocks.
\<close>

definition embedTry ::
  "('e, 'd) services \<Rightarrow> jsobject \<Rightarrow> ('e, 'd) RAGModule \<Rightarrow> (jsexn + vector) \<times> ('e, 'd) RAGModule" where
  "embedTry S request m =
     (case validateEmbedRequest request of
        (Inl e, request') \<Rightarrow> (Inl e, m)
      | (Inr u, request') \<Rightarrow> callEmbed S (request' ''text'') m)"

definition embed ::
  "('e, 'd) services \<Rightarrow> jsobject \<Rightarrow> ('e, 'd) RAGModule \<Rightarrow> (jsexn + vector) \<times> ('e, 'd) RAGModule" where
  "embed S request m =
     (if \<not> initialized m then (Inl notInitialized, m)
      else
        (case readLength (request ''text'') of
           Inl typeError \<Rightarrow> (Inl typeError, m)
         | Inr textLength \<Rightarrow>
             (case embedTry S request m of
                (Inl error, m') \<Rightarrow>
                  (Inl (rethrowOrWrap (js ''Failed to generate embedding: '') EMBEDDING_FAILED error),
                   m')
              | (Inr v, m') \<Rightarrow> (Inr v, m'))))"

definition saveTry ::
  "('e, 'd) services \<Rightarrow> jsobject \<Rightarrow> ('e, 'd) RAGModule \<Rightarrow> (jsexn + bool) \<times> ('e, 'd) RAGModule" where
  "saveTry S request m =
     (case validateSaveRequest request of
        (Inl e, request') \<Rightarrow> (Inl e, m)
      | (Inr u, request') \<Rightarrow>
          (case callEmbed S (request' ''text'') m of
             (Inl e, m1) \<Rightarrow> (Inl e, m1)
           | (Inr v, m1) \<Rightarrow>
               (case callCreateTableIfNotExists S (request' ''tablename'') m1 of
                  (Inl e, m2) \<Rightarrow> (Inl e, m2)
                | (Inr u', m2) \<Rightarrow>
                    callInsertVector S (request' ''tablename'') (request' ''id'') v m2)))"

definition save ::
  "('e, 'd) services \<Rightarrow> jsobject \<Rightarrow> ('e, 'd) RAGModule \<Rightarrow> (jsexn + bool) \<times> ('e, 'd) RAGModule" where
  "save S request m =
     (if \<not> initialized m then (Inl notInitialized, m)
      else
        (case readLength (request ''text'') of
           Inl typeError \<Rightarrow> (Inl typeError, m)
         | Inr textLength \<Rightarrow>
             (case saveTry S request m of
                (Inl error, m') \<Rightarrow>
                  (Inl (rethrowOrWrap (js ''Failed to save vector: '') VECTOR_SAVE_FAILED error), m')
              | (Inr success, m') \<Rightarrow> (Inr success, m'))))"

definition searchTry ::
  "('e, 'd) services \<Rightarrow> jsobject \<Rightarrow> ('e, 'd) RAGModule \<Rightarrow>
     (jsexn + jsval list) \<times> ('e, 'd) RAGModule" where
  "searchTry S request m =
     (case validateSearchRequest request of
        (Inl e, request') \<Rightarrow> (Inl e, m)
      | (Inr u, request') \<Rightarrow>
          (case callEmbed S (request' ''text'') m of
             (Inl e, m1) \<Rightarrow> (Inl e, m1)
           | (Inr queryVector, m1) \<Rightarrow>
               vectorSearch S (request' ''tablename'') queryVector (request' ''qty'') m1))"

definition search ::
  "('e, 'd) services \<Rightarrow> jsobject \<Rightarrow> ('e, 'd) RAGModule \<Rightarrow>
     (jsexn + jsval list) \<times> ('e, 'd) RAGModule" where
  "search S request m =
     (if \<not> initialized m then (Inl notInitialized, m)
      else
        (case readLength (request ''text'') of
           Inl typeError \<Rightarrow> (Inl typeError, m)
         | Inr textLength \<Rightarrow>
             (case searchTry S request m of
                (Inl error, m') \<Rightarrow>
                  (Inl (rethrowOrWrap (js ''Failed to search vectors: '') SEARCH_FAILED error), m')
              | (Inr results, m') \<Rightarrow> (Inr results, m'))))"

subsection \<open>initialize and close\<close>

definition initialize ::
  "('e, 'd) services \<Rightarrow> ('e, 'd) RAGModule \<Rightarrow> (jsexn + unit) \<times> ('e, 'd) RAGModule" where
  "initialize S m =
     (if initialized m then (Inr (), m)
      else
        (case callEmbeddingInitialize S m of
           (Inl error, m1) \<Rightarrow>
             (Inl (rethrowOrWrap (js ''Failed to initialize RAG module: '') MODEL_LOAD_FAILED error),
              m1)
         | (Inr u, m1) \<Rightarrow>
             (case callDatabaseInitialize S m1 of
                (Inl error, m2) \<Rightarrow>
                  (Inl (rethrowOrWrap (js ''Failed to initialize RAG module: '')
                          MODEL_LOAD_FAILED error),
                   m2)
              | (Inr u', m2) \<Rightarrow> (Inr (), m2\<lparr>initialized := True\<rparr>))))"

definition close ::
  "('e, 'd) services \<Rightarrow> ('e, 'd) RAGModule \<Rightarrow> (jsexn + unit) \<times> ('e, 'd) RAGModule" where
  "close S m =
     (if \<not> initialized m then (Inr (), m)
      else
        (case callEmbeddingClose S m of
           (Inl error, m1) \<Rightarrow>
             (Inl (rethrowOrWrap (js ''Failed to close RAG module: '') MODEL_LOAD_FAILED error), m1)
         | (Inr u, m1) \<Rightarrow>
             (case callDatabaseClose S m1 of
                (Inl error, m2) \<Rightarrow>
                  (Inl (rethrowOrWrap (js ''Failed to close RAG module: '') MODEL_LOAD_FAILED error),
                   m2)
              | (Inr u', m2) \<Rightarrow> (Inr (), m2\<lparr>initialized := False\<rparr>))))"

section \<open>SQLiteVectorDatabase.initialize (src/src/services/database.ts)\<close>

text \<open>
  The sqlite3 driver is outside the repository. What the database service sees of it is
  the \<open>err\<close> argument of two callbacks: the one of \<open>new sqlite3.Database(path, cb)\<close> and
  the one of \<open>db.loadExtension(path, cb)\<close>. \<open>None\<close> is \<open>null\<close>; \<open>Some msg\<close> is an
  \<open>Error\<close> whose message is \<open>msg\<close>.
\<close>

record sqlite3 =
  openErr :: "jsstring \<Rightarrow> jsstring option"
  loadExtensionErr :: "jsstring option"

record SQLiteVectorDatabase =
  db :: bool
  dbPath :: jsstring
  dbInitialized :: bool

text \<open>\<open>loadVectorExtension\<close>: the promise it returns, resolved or rejected.\<close>

definition loadVectorExtension :: "sqlite3 \<Rightarrow> SQLiteVectorDatabase \<Rightarrow> jsexn + unit" where
  "loadVectorExtension drv st =
     (if \<not> db st then Inl (JSError (js ''Error'') (js ''Database not initialized''))
      else
        (case loadExtensionErr drv of
           Some msg \<Rightarrow>
             Inl (RAGError (js ''Failed to load sqlite-vec extension: '' @ msg)
                    DATABASE_CONNECTION_FAILED (Some (JSError (js ''Error'') msg)))
         | None \<Rightarrow> Inr ()))"

text \<open>
  \<open>initialize\<close>: \<open>this.db\<close> is assigned as soon as the \<open>Database\<close> object is constructed,
  before its callback reports success or failure. The \<open>catch\<close> block has no
  \<open>instanceof RAGError\<close> test.
\<close>

definition SQLiteVectorDatabase_initializeTry ::
  "sqlite3 \<Rightarrow> jsstring \<Rightarrow> SQLiteVectorDatabase \<Rightarrow> (jsexn + unit) \<times> SQLiteVectorDatabase" where
  "SQLiteVectorDatabase_initializeTry drv path st =
     (let st1 = st\<lparr>dbPath := path\<rparr>;
          st2 = st1\<lparr>db := True\<rparr> in
      (case openErr drv path of
         Some msg \<Rightarrow>
           (Inl (RAGError (js ''Failed to connect to database: '' @ msg)
                   DATABASE_CONNECTION_FAILED (Some (JSError (js ''Error'') msg))),
            st2)
       | None \<Rightarrow>
           (case loadVectorExtension drv st2 of
              Inl error \<Rightarrow> (Inl error, st2)
            | Inr u \<Rightarrow> (Inr (), st2\<lparr>dbInitialized := True\<rparr>))))"

definition SQLiteVectorDatabase_initialize ::
  "sqlite3 \<Rightarrow> jsstring \<Rightarrow> SQLiteVectorDatabase \<Rightarrow> (jsexn + unit) \<times> SQLiteVectorDatabase" where
  "SQLiteVectorDatabase_initialize drv path st =
     (if dbInitialized st \<and> dbPath st = path then (Inr (), st)
      else
        (case SQLiteVectorDatabase_initializeTry drv path st of
           (Inl error, st') \<Rightarrow>
             (Inl (wrapAlways (js ''Failed to initialize database: '') DATABASE_CONNECTION_FAILED
                     error),
              st')
         | (Inr u, st') \<Rightarrow> (Inr (), st')))"

section \<open>MySQLDatabase.updateDocument (src/src/services/mysqlDatabase.ts)\<close>

text \<open>
  The mysql2 driver is outside the repository: \<open>pool.execute\<close> of the \<open>UPDATE\<close>
  statement is a parameter, given the table, the \<open>SET\<close> assignments in order and the id,
  and answering with the number of affected rows or an error. \<open>JSON.stringify\<close> is a
  parameter as well.
\<close>

record 'r mysql2 =
  executeUpdate :: "jsval \<Rightarrow> (string \<times> jsval) list \<Rightarrow> jsval \<Rightarrow> 'r \<Rightarrow> (jsexn + nat) \<times> 'r"
  jsonStringify :: "jsval \<Rightarrow> jsstring"

record 'r MySQLDatabase =
  pool :: bool
  mysqlInitialized :: bool
  server :: 'r

definition updateFields :: "'r mysql2 \<Rightarrow> jsobject \<Rightarrow> (string \<times> jsval) list" where
  "updateFields drv updates =
     (if updates ''title'' \<noteq> JUndefined then [(''title'', updates ''title'')] else []) @
     (if updates ''content'' \<noteq> JUndefined then [(''content'', updates ''content'')] else []) @
     (if updates ''metadata'' \<noteq> JUndefined then
        [(''metadata'',
          if truthy (updates ''metadata'') then JStr (jsonStringify drv (updates ''metadata''))
          else JNull)]
      else [])"

definition MySQLDatabase_updateDocument ::
  "'r mysql2 \<Rightarrow> jsval \<Rightarrow> jsval \<Rightarrow> jsobject \<Rightarrow> 'r MySQLDatabase \<Rightarrow>
     (jsexn + bool) \<times> 'r MySQLDatabase" where
  "MySQLDatabase_updateDocument drv tableName ident updates st =
     (if \<not> mysqlInitialized st \<or> \<not> pool st then
        (Inl (RAGError (js ''MySQL database not initialized'') DATABASE_CONNECTION_FAILED None), st)
      else if length (updateFields drv updates) = 0 then (Inr False, st)
      else
        (case executeUpdate drv tableName (updateFields drv updates) ident (server st) of
           (Inl error, r') \<Rightarrow>
             (Inl (wrapAlways (js ''Failed to update document: '') VECTOR_SAVE_FAILED error),
              st\<lparr>server := r'\<rparr>)
         | (Inr affectedRows, r') \<Rightarrow> (Inr (affectedRows > 0), st\<lparr>server := r'\<rparr>)))"

section \<open>HybridRAGModule (src/unnamed/part_004)\<close>

text \<open>
  The hybrid module holds the embedding service, the vector database (its field
  \<open>vectorDatabase\<close> is the field \<open>databaseService\<close> of the record here) and a relational
  database, whose methods are parameters like those of the other two collaborators.
\<close>

record ('e, 'd, 'm) hybridServices = "('e, 'd) services" +
  mysqlInitialize :: "'m \<Rightarrow> (jsexn + unit) \<times> 'm"
  createDocumentsTable :: "jsval \<Rightarrow> 'm \<Rightarrow> (jsexn + unit) \<times> 'm"
  insertDocument :: "jsval \<Rightarrow> jsobject \<Rightarrow> 'm \<Rightarrow> (jsexn + jsval) \<times> 'm"
  getDocumentsByIds :: "jsval \<Rightarrow> jsval list \<Rightarrow> 'm \<Rightarrow> (jsexn + jsobject list) \<times> 'm"
  mysqlUpdateDocument :: "jsval \<Rightarrow> jsval \<Rightarrow> jsobject \<Rightarrow> 'm \<Rightarrow> (jsexn + bool) \<times> 'm"
  mysqlDeleteDocument :: "jsval \<Rightarrow> jsval \<Rightarrow> 'm \<Rightarrow> (jsexn + bool) \<times> 'm"
  mysqlClose :: "'m \<Rightarrow> (jsexn + unit) \<times> 'm"

record ('e, 'd, 'm) HybridRAGModule = "('e, 'd) RAGModule" +
  mysqlDatabase :: 'm

definition hybridNotInitialized :: jsexn where
  "hybridNotInitialized = RAGError (js ''Hybrid RAG module not initialized'') INVALID_INPUT None"

definition callMysqlInitialize ::
  "('e, 'd, 'm) hybridServices \<Rightarrow> ('e, 'd, 'm) HybridRAGModule \<Rightarrow>
     (jsexn + unit) \<times> ('e, 'd, 'm) HybridRAGModule" where
  "callMysqlInitialize S m =
     (case mysqlInitialize S (mysqlDatabase m) of
        (r, d') \<Rightarrow> (r, m\<lparr>mysqlDatabase := d', calls := calls m @ [MysqlInitialize]\<rparr>))"

definition callMysqlClose ::
  "('e, 'd, 'm) hybridServices \<Rightarrow> ('e, 'd, 'm) HybridRAGModule \<Rightarrow>
     (jsexn + unit) \<times> ('e, 'd, 'm) HybridRAGModule" where
  "callMysqlClose S m =
     (case mysqlClose S (mysqlDatabase m) of
        (r, d') \<Rightarrow> (r, m\<lparr>mysqlDatabase := d', calls := calls m @ [MysqlClose]\<rparr>))"

definition callCreateDocumentsTable ::
  "('e, 'd, 'm) hybridServices \<Rightarrow> jsval \<Rightarrow> ('e, 'd, 'm) HybridRAGModule \<Rightarrow>
     (jsexn + unit) \<times> ('e, 'd, 'm) HybridRAGModule" where
  "callCreateDocumentsTable S tablename m =
     (case createDocumentsTable S tablename (mysqlDatabase m) of
        (r, d') \<Rightarrow> (r, m\<lparr>mysqlDatabase := d',
                             calls := calls m @ [CreateDocumentsTable tablename]\<rparr>))"

definition callInsertDocument ::
  "('e, 'd, 'm) hybridServices \<Rightarrow> jsval \<Rightarrow> jsobject \<Rightarrow> ('e, 'd, 'm) HybridRAGModule \<Rightarrow>
     (jsexn + jsval) \<times> ('e, 'd, 'm) HybridRAGModule" where
  "callInsertDocument S tablename document m =
     (case insertDocument S tablename document (mysqlDatabase m) of
        (r, d') \<Rightarrow> (r, m\<lparr>mysqlDatabase := d', calls := calls m @ [InsertDocument tablename]\<rparr>))"

definition callGetDocumentsByIds ::
  "('e, 'd, 'm) hybridServices \<Rightarrow> jsval \<Rightarrow> jsval list \<Rightarrow> ('e, 'd, 'm) HybridRAGModule \<Rightarrow>
     (jsexn + jsobject list) \<times> ('e, 'd, 'm) HybridRAGModule" where
  "callGetDocumentsByIds S tablename ids m =
     (case getDocumentsByIds S tablename ids (mysqlDatabase m) of
        (r, d') \<Rightarrow> (r, m\<lparr>mysqlDatabase := d',
                             calls := calls m @ [GetDocumentsByIds tablename ids]\<rparr>))"

definition callMysqlUpdateDocument ::
  "('e, 'd, 'm) hybridServices \<Rightarrow> jsval \<Rightarrow> jsval \<Rightarrow> jsobject \<Rightarrow> ('e, 'd, 'm) HybridRAGModule \<Rightarrow>
     (jsexn + bool) \<times> ('e, 'd, 'm) HybridRAGModule" where
  "callMysqlUpdateDocument S tablename ident updates m =
     (case mysqlUpdateDocument S tablename ident updates (mysqlDatabase m) of
        (r, d') \<Rightarrow> (r, m\<lparr>mysqlDatabase := d',
                             calls := calls m @ [MysqlUpdateDocument tablename ident]\<rparr>))"

definition callMysqlDeleteDocument ::
  "('e, 'd, 'm) hybridServices \<Rightarrow> jsval \<Rightarrow> jsval \<Rightarrow> ('e, 'd, 'm) HybridRAGModule \<Rightarrow>
     (jsexn + bool) \<times> ('e, 'd, 'm) HybridRAGModule" where
  "callMysqlDeleteDocument S tablename ident m =
     (case mysqlDeleteDocument S tablename ident (mysqlDatabase m) of
        (r, d') \<Rightarrow> (r, m\<lparr>mysqlDatabase := d',
                             calls := calls m @ [MysqlDeleteDocument tablename ident]\<rparr>))"

subsection \<open>The request validators of the hybrid module\<close>

text \<open>
  \<open>validateSaveDocumentRequest\<close>. \<open>sanitizeText(request.title)\<close> calls
  \<open>text.replace\<close>, a \<open>TypeError\<close> on a truthy title that is no string.
\<close>

definition validateSaveDocumentRequest :: "jsobject \<Rightarrow> (jsexn + unit) \<times> jsobject" where
  "validateSaveDocumentRequest request =
     (case validateText (request ''content'') (js ''document content'') of
        Inl e \<Rightarrow> (Inl e, request)
      | Inr t \<Rightarrow>
          let request0 = request(''content'' := JStr t);
              request1 = request0(''content'' := JStr (sanitizeText t)) in
          (case validateTableName (request1 ''tablename'') of
             Inl e \<Rightarrow> (Inl e, request1)
           | Inr n \<Rightarrow>
               let request2 = request1(''tablename'' := JStr n) in
               if truthy (request2 ''title'') then
                 (case request2 ''title'' of
                    JStr title \<Rightarrow> (Inr (), request2(''title'' := JStr (sanitizeText title)))
                  | _ \<Rightarrow>
                      (Inl (JSError (js ''TypeError'') (js ''text.replace is not a function'')),
                       request2))
               else (Inr (), request2)))"

definition validateHybridSearchRequest :: "jsobject \<Rightarrow> (jsexn + unit) \<times> jsobject" where
  "validateHybridSearchRequest request =
     (case validateText (request ''text'') (js ''search text'') of
        Inl e \<Rightarrow> (Inl e, request)
      | Inr t \<Rightarrow>
          let request0 = request(''text'' := JStr t);
              request1 = request0(''text'' := JStr (sanitizeText t)) in
          (case validateTableName (request1 ''tablename'') of
             Inl e \<Rightarrow> (Inl e, request1)
           | Inr n \<Rightarrow>
               let request2 = request1(''tablename'' := JStr n) in
               (case validateSearchQuantity (request2 ''qty'') of
                  Inl e \<Rightarrow> (Inl e, request2)
                | Inr q \<Rightarrow> (Inr (), request2(''qty'' := JNum q)))))"

subsection \<open>initialize and close\<close>

definition hybridInitializeTry ::
  "('e, 'd, 'm) hybridServices \<Rightarrow> ('e, 'd, 'm) HybridRAGModule \<Rightarrow>
     (jsexn + unit) \<times> ('e, 'd, 'm) HybridRAGModule" where
  "hybridInitializeTry S m =
     (case callEmbeddingInitialize S m of
        (Inl error, m1) \<Rightarrow> (Inl error, m1)
      | (Inr u, m1) \<Rightarrow>
          (case callDatabaseInitialize S m1 of
             (Inl error, m2) \<Rightarrow> (Inl error, m2)
           | (Inr u', m2) \<Rightarrow>
               (case callMysqlInitialize S m2 of
                  (Inl error, m3) \<Rightarrow> (Inl error, m3)
                | (Inr u'', m3) \<Rightarrow> (Inr (), m3\<lparr>initialized := True\<rparr>))))"

definition hybridInitialize ::
  "('e, 'd, 'm) hybridServices \<Rightarrow> ('e, 'd, 'm) HybridRAGModule \<Rightarrow>
     (jsexn + unit) \<times> ('e, 'd, 'm) HybridRAGModule" where
  "hybridInitialize S m =
     (if initialized m then (Inr (), m)
      else
        (case hybridInitializeTry S m of
           (Inl error, m') \<Rightarrow>
             (Inl (wrapAlways (js ''Failed to initialize Hybrid RAG module: '') MODEL_LOAD_FAILED
                     error),
              m')
         | (Inr u, m') \<Rightarrow> (Inr (), m')))"

definition hybridCloseTry ::
  "('e, 'd, 'm) hybridServices \<Rightarrow> ('e, 'd, 'm) HybridRAGModule \<Rightarrow>
     (jsexn + unit) \<times> ('e, 'd, 'm) HybridRAGModule" where
  "hybridCloseTry S m =
     (case callEmbeddingClose S m of
        (Inl error, m1) \<Rightarrow> (Inl error, m1)
      | (Inr u, m1) \<Rightarrow>
          (case callDatabaseClose S m1 of
             (Inl error, m2) \<Rightarrow> (Inl error, m2)
           | (Inr u', m2) \<Rightarrow>
               (case callMysqlClose S m2 of
                  (Inl error, m3) \<Rightarrow> (Inl error, m3)
                | (Inr u'', m3) \<Rightarrow> (Inr (), m3\<lparr>initialized := False\<rparr>))))"

definition hybridClose ::
  "('e, 'd, 'm) hybridServices \<Rightarrow> ('e, 'd, 'm) HybridRAGModule \<Rightarrow>
     (jsexn + unit) \<times> ('e, 'd, 'm) HybridRAGModule" where
  "hybridClose S m =
     (if \<not> initialized m then (Inr (), m)
      else
        (case hybridCloseTry S m of
           (Inl error, m') \<Rightarrow>
             (Inl (wrapAlways (js ''Failed to close Hybrid RAG module: '') MODEL_LOAD_FAILED error),
              m')
         | (Inr u, m') \<Rightarrow> (Inr (), m')))"

subsection \<open>saveDocument and searchDocuments\<close>

definition saveDocumentTry ::
  "('e, 'd, 'm) hybridServices \<Rightarrow> jsobject \<Rightarrow> ('e, 'd, 'm) HybridRAGModule \<Rightarrow>
     (jsexn + jsval) \<times> ('e, 'd, 'm) HybridRAGModule" where
  "saveDocumentTry S request m =
     (case validateSaveDocumentRequest request of
        (Inl e, request') \<Rightarrow> (Inl e, m)
      | (Inr u, request') \<Rightarrow>
          (case callCreateDocumentsTable S (request' ''tablename'') m of
             (Inl e, m1) \<Rightarrow> (Inl e, m1)
           | (Inr u1, m1) \<Rightarrow>
               (case callInsertDocument S (request' ''tablename'')
                       (emptyObject(''title'' := request' ''title'',
                                    ''content'' := request' ''content'',
                                    ''metadata'' := request' ''metadata'')) m1 of
                  (Inl e, m2) \<Rightarrow> (Inl e, m2)
                | (Inr documentId, m2) \<Rightarrow>
                    (case callEmbed S (request' ''content'') m2 of
                       (Inl e, m3) \<Rightarrow> (Inl e, m3)
                     | (Inr v, m3) \<Rightarrow>
                         (case callCreateTableIfNotExists S (request' ''tablename'') m3 of
                            (Inl e, m4) \<Rightarrow> (Inl e, m4)
                          | (Inr u4, m4) \<Rightarrow>
                              (case callInsertVector S (request' ''tablename'') documentId v m4 of
                                 (Inl e, m5) \<Rightarrow> (Inl e, m5)
                               | (Inr ok, m5) \<Rightarrow> (Inr documentId, m5)))))))"

definition saveDocument ::
  "('e, 'd, 'm) hybridServices \<Rightarrow> jsobject \<Rightarrow> ('e, 'd, 'm) HybridRAGModule \<Rightarrow>
     (jsexn + jsval) \<times> ('e, 'd, 'm) HybridRAGModule" where
  "saveDocument S request m =
     (if \<not> initialized m then (Inl hybridNotInitialized, m)
      else
        (case readLength (request ''content'') of
           Inl typeError \<Rightarrow> (Inl typeError, m)
         | Inr contentLength \<Rightarrow>
             (case saveDocumentTry S request m of
                (Inl error, m') \<Rightarrow>
                  (Inl (rethrowOrWrap (js ''Failed to save document: '') VECTOR_SAVE_FAILED error),
                   m')
              | (Inr documentId, m') \<Rightarrow> (Inr documentId, m'))))"

text \<open>
  The \<open>SearchResult\<close> built from a document row and its index in the list of rows.
\<close>

definition searchResult :: "jsobject \<Rightarrow> nat \<times> jsobject \<Rightarrow> jsobject" where
  "searchResult request p =
     (case p of (index, doc) \<Rightarrow>
        emptyObject
          (''id'' := doc ''id'',
           ''title'' := doc ''title'',
           ''content'' :=
              (if request ''includeContent'' \<noteq> JBool False then doc ''content'' else JStr []),
           ''metadata'' :=
              (if request ''includeMetadata'' \<noteq> JBool False then doc ''metadata''
               else JUndefined),
           ''created_at'' := doc ''created_at'',
           ''updated_at'' := doc ''updated_at'',
           ''similarity_score'' := JNum (Num (of_nat index))))"

definition searchDocumentsTry ::
  "('e, 'd, 'm) hybridServices \<Rightarrow> jsobject \<Rightarrow> ('e, 'd, 'm) HybridRAGModule \<Rightarrow>
     (jsexn + jsobject list) \<times> ('e, 'd, 'm) HybridRAGModule" where
  "searchDocumentsTry S request m =
     (case validateHybridSearchRequest request of
        (Inl e, request') \<Rightarrow> (Inl e, m)
      | (Inr u, request') \<Rightarrow>
          (case callEmbed S (request' ''text'') m of
             (Inl e, m1) \<Rightarrow> (Inl e, m1)
           | (Inr queryVector, m1) \<Rightarrow>
               (case vectorSearch S (request' ''tablename'') queryVector (request' ''qty'') m1 of
                  (Inl e, m2) \<Rightarrow> (Inl e, m2)
                | (Inr similarIds, m2) \<Rightarrow>
                    if length similarIds = 0 then (Inr [], m2)
                    else
                      (case callGetDocumentsByIds S (request' ''tablename'') similarIds m2 of
                         (Inl e, m3) \<Rightarrow> (Inl e, m3)
                       | (Inr documents, m3) \<Rightarrow>
                           (Inr (map (searchResult request') (enumerate 0 documents)), m3)))))"

definition searchDocuments ::
  "('e, 'd, 'm) hybridServices \<Rightarrow> jsobject \<Rightarrow> ('e, 'd, 'm) HybridRAGModule \<Rightarrow>
     (jsexn + jsobject list) \<times> ('e, 'd, 'm) HybridRAGModule" where
  "searchDocuments S request m =
     (if \<not> initialized m then (Inl hybridNotInitialized, m)
      else
        (case readLength (request ''text'') of
           Inl typeError \<Rightarrow> (Inl typeError, m)
         | Inr textLength \<Rightarrow>
             (case searchDocumentsTry S request m of
                (Inl error, m') \<Rightarrow>
                  (Inl (rethrowOrWrap (js ''Failed to search documents: '') SEARCH_FAILED error), m')
              | (Inr results, m') \<Rightarrow> (Inr results, m'))))"

subsection \<open>updateDocument, deleteDocument, getDocument, embed\<close>

text \<open>
  \<open>updateDocument\<close>: the guard of the re-embedding is \<open>updated && updates.content\<close>,
  the truthiness of the new content.
\<close>

definition updateDocumentTry ::
  "('e, 'd, 'm) hybridServices \<Rightarrow> jsval \<Rightarrow> jsval \<Rightarrow> jsobject \<Rightarrow> ('e, 'd, 'm) HybridRAGModule \<Rightarrow>
     (jsexn + bool) \<times> ('e, 'd, 'm) HybridRAGModule" where
  "updateDocumentTry S tablename ident updates m =
     (case callMysqlUpdateDocument S tablename ident updates m of
        (Inl e, m1) \<Rightarrow> (Inl e, m1)
      | (Inr updated, m1) \<Rightarrow>
          if updated \<and> truthy (updates ''content'') then
            (case callEmbed S (updates ''content'') m1 of
               (Inl e, m2) \<Rightarrow> (Inl e, m2)
             | (Inr v, m2) \<Rightarrow>
                 (case callInsertVector S tablename ident v m2 of
                    (Inl e, m3) \<Rightarrow> (Inl e, m3)
                  | (Inr ok, m3) \<Rightarrow> (Inr updated, m3)))
          else (Inr updated, m1))"

definition updateDocument ::
  "('e, 'd, 'm) hybridServices \<Rightarrow> jsval \<Rightarrow> jsval \<Rightarrow> jsobject \<Rightarrow> ('e, 'd, 'm) HybridRAGModule \<Rightarrow>
     (jsexn + bool) \<times> ('e, 'd, 'm) HybridRAGModule" where
  "updateDocument S tablename ident updates m =
     (if \<not> initialized m then (Inl hybridNotInitialized, m)
      else
        (case updateDocumentTry S tablename ident updates m of
           (Inl error, m') \<Rightarrow>
             (Inl (rethrowOrWrap (js ''Failed to update document: '') VECTOR_SAVE_FAILED error), m')
         | (Inr updated, m') \<Rightarrow> (Inr updated, m')))"

definition deleteDocument ::
  "('e, 'd, 'm) hybridServices \<Rightarrow> jsval \<Rightarrow> jsval \<Rightarrow> ('e, 'd, 'm) HybridRAGModule \<Rightarrow>
     (jsexn + bool) \<times> ('e, 'd, 'm) HybridRAGModule" where
  "deleteDocument S tablename ident m =
     (if \<not> initialized m then (Inl hybridNotInitialized, m)
      else
        (case callMysqlDeleteDocument S tablename ident m of
           (Inl error, m') \<Rightarrow>
             (Inl (rethrowOrWrap (js ''Failed to delete document: '') VECTOR_SAVE_FAILED error), m')
         | (Inr mysqlDeleted, m') \<Rightarrow> (Inr mysqlDeleted, m')))"

text \<open>\<open>getDocument\<close> resolves to the first row, or to \<open>null\<close> (\<open>None\<close>) when there is none.\<close>

definition getDocument ::
  "('e, 'd, 'm) hybridServices \<Rightarrow> jsval \<Rightarrow> jsval \<Rightarrow> ('e, 'd, 'm) HybridRAGModule \<Rightarrow>
     (jsexn + jsobject option) \<times> ('e, 'd, 'm) HybridRAGModule" where
  "getDocument S tablename ident m =
     (if \<not> initialized m then (Inl hybridNotInitialized, m)
      else
        (case callGetDocumentsByIds S tablename [ident] m of
           (Inl error, m') \<Rightarrow>
             (Inl (rethrowOrWrap (js ''Failed to get document: '') SEARCH_FAILED error), m')
         | (Inr documents, m') \<Rightarrow>
             ((case documents of [] \<Rightarrow> Inr None | d # ds \<Rightarrow> Inr (Some d)), m')))"

definition hybridEmbedTry ::
  "('e, 'd, 'm) hybridServices \<Rightarrow> jsobject \<Rightarrow> ('e, 'd, 'm) HybridRAGModule \<Rightarrow>
     (jsexn + vector) \<times> ('e, 'd, 'm) HybridRAGModule" where
  "hybridEmbedTry S request m =
     (case validateEmbedRequest request of
        (Inl e, request') \<Rightarrow> (Inl e, m)
      | (Inr u, request') \<Rightarrow> callEmbed S (request' ''text'') m)"

definition hybridEmbed ::
  "('e, 'd, 'm) hybridServices \<Rightarrow> jsobject \<Rightarrow> ('e, 'd, 'm) HybridRAGModule \<Rightarrow>
     (jsexn + vector) \<times> ('e, 'd, 'm) HybridRAGModule" where
  "hybridEmbed S request m =
     (if \<not> initialized m then (Inl hybridNotInitialized, m)
      else
        (case hybridEmbedTry S request m of
           (Inl error, m') \<Rightarrow>
             (Inl (rethrowOrWrap (js ''Failed to generate embedding: '') EMBEDDING_FAILED error), m')
         | (Inr v, m') \<Rightarrow> (Inr v, m')))"

section \<open>Test doubles\<close>

text \<open>
  Collaborators for the concrete runs below, in the manner of the mocks of the
  repository's tests: an embedding service that answers a string with a one-element
  vector holding its length, and a vector database that keeps its rows
  \<open>(tablename, id, vector)\<close> in memory, replaces a row on insert and answers a
  similarity query with the ids of the table.
\<close>

type_synonym memoryStore = "(jsval \<times> jsval \<times> vector) list"

definition memoryInsert :: "jsval \<Rightarrow> jsval \<Rightarrow> vector \<Rightarrow> memoryStore \<Rightarrow> memoryStore" where
  "memoryInsert t i v rows = filter (\<lambda>r. \<not> (fst r = t \<and> fst (snd r) = i)) rows @ [(t, i, v)]"

definition memoryIds :: "jsval \<Rightarrow> memoryStore \<Rightarrow> jsval list" where
  "memoryIds t rows = map (\<lambda>r. fst (snd r)) (filter (\<lambda>r. fst r = t) rows)"

definition stubEmbed :: "jsval \<Rightarrow> unit \<Rightarrow> (jsexn + vector) \<times> unit" where
  "stubEmbed text e =
     (case text of
        JStr s \<Rightarrow> (Inr [Num (of_nat (length s))], e)
      | _ \<Rightarrow> (Inl (RAGError (js ''Text input cannot be empty'') INVALID_INPUT None), e))"

definition stubServices :: "(unit, memoryStore) services" where
  "stubServices =
     \<lparr>embeddingInitialize = (\<lambda>p e. (Inr (), e)),
      embeddingEmbed = stubEmbed,
      embeddingClose = (\<lambda>e. (Inr (), e)),
      databaseInitialize = (\<lambda>p d. (Inr (), d)),
      createTableIfNotExists = (\<lambda>t d. (Inr (), d)),
      insertVector = (\<lambda>t i v d. (Inr True, memoryInsert t i v d)),
      searchSimilar = (\<lambda>t v k d. (Inr (memoryIds t d), d)),
      databaseClose = (\<lambda>d. (Inr (), d))\<rparr>"

definition stubModule :: "(unit, memoryStore) RAGModule" where
  "stubModule =
     \<lparr>modelPath = js ''./model.gguf'', databasePath = js ''./rag.db'', initialized = True,
      embeddingService = (), databaseService = [], calls = []\<rparr>"

text \<open>
  The orchestrator over the repository's own \<open>SQLiteVectorDatabase.initialize\<close>, with a
  driver whose connection callback reports \<open>new Error('Connection failed')\<close> (the case
  of the repository's database test). The other methods of the database are not
  reached by \<open>initialize\<close>.
\<close>

definition failingDriver :: sqlite3 where
  "failingDriver = \<lparr>openErr = (\<lambda>p. Some (js ''Connection failed'')), loadExtensionErr = None\<rparr>"

definition sqliteServices :: "sqlite3 \<Rightarrow> (unit, SQLiteVectorDatabase) services" where
  "sqliteServices drv =
     \<lparr>embeddingInitialize = (\<lambda>p e. (Inr (), e)),
      embeddingEmbed = stubEmbed,
      embeddingClose = (\<lambda>e. (Inr (), e)),
      databaseInitialize = SQLiteVectorDatabase_initialize drv,
      createTableIfNotExists = (\<lambda>t d. (Inr (), d)),
      insertVector = (\<lambda>t i v d. (Inr True, d)),
      searchSimilar = (\<lambda>t v k d. (Inr [], d)),
      databaseClose = (\<lambda>d. (Inr (), d))\<rparr>"

definition sqliteModule :: "(unit, SQLiteVectorDatabase) RAGModule" where
  "sqliteModule =
     \<lparr>modelPath = js ''./model.gguf'', databasePath = js ''./invalid.db'', initialized = False,
      embeddingService = (),
      databaseService = \<lparr>db = False, dbPath = [], dbInitialized = False\<rparr>,
      calls = []\<rparr>"

text \<open>
  The hybrid module over the repository's own \<open>MySQLDatabase.updateDocument\<close>, with a
  relational server that keeps rows \<open>(id, content)\<close> in memory and reports as affected
  the rows whose id matches.
\<close>

type_synonym memoryRows = "(jsval \<times> jsval) list"

definition stubExecuteUpdate ::
  "jsval \<Rightarrow> (string \<times> jsval) list \<Rightarrow> jsval \<Rightarrow> memoryRows \<Rightarrow> (jsexn + nat) \<times> memoryRows" where
  "stubExecuteUpdate tableName assignments ident rows =
     (Inr (length (filter (\<lambda>r. fst r = ident) rows)),
      map (\<lambda>r. if fst r = ident
                 then (case map_of assignments ''content'' of Some c \<Rightarrow> (fst r, c) | None \<Rightarrow> r)
                 else r) rows)"

definition stubMysql2 :: "memoryRows mysql2" where
  "stubMysql2 = \<lparr>executeUpdate = stubExecuteUpdate, jsonStringify = (\<lambda>v. js ''{}'')\<rparr>"

definition stubInsertDocument ::
  "jsval \<Rightarrow> jsobject \<Rightarrow> memoryRows MySQLDatabase \<Rightarrow> (jsexn + jsval) \<times> memoryRows MySQLDatabase" where
  "stubInsertDocument t document st =
     (let ident = JNum (Num (of_nat (length (server st) + 1)))
      in (Inr ident, st\<lparr>server := server st @ [(ident, document ''content'')]\<rparr>))"

definition stubGetDocumentsByIds ::
  "jsval \<Rightarrow> jsval list \<Rightarrow> memoryRows MySQLDatabase \<Rightarrow>
     (jsexn + jsobject list) \<times> memoryRows MySQLDatabase" where
  "stubGetDocumentsByIds t ids st =
     (Inr (concat (map (\<lambda>i. map (\<lambda>r. emptyObject(''id'' := fst r, ''content'' := snd r))
                               (filter (\<lambda>r. fst r = i) (server st))) ids)),
      st)"

definition stubDeleteDocument ::
  "jsval \<Rightarrow> jsval \<Rightarrow> memoryRows MySQLDatabase \<Rightarrow> (jsexn + bool) \<times> memoryRows MySQLDatabase" where
  "stubDeleteDocument t ident st =
     (Inr (0 < length (filter (\<lambda>r. fst r = ident) (server st))),
      st\<lparr>server := filter (\<lambda>r. \<not> (fst r = ident)) (server st)\<rparr>)"

definition stubHybridServices :: "(unit, memoryStore, memoryRows MySQLDatabase) hybridServices" where
  "stubHybridServices =
     \<lparr>embeddingInitialize = (\<lambda>p e. (Inr (), e)),
      embeddingEmbed = stubEmbed,
      embeddingClose = (\<lambda>e. (Inr (), e)),
      databaseInitialize = (\<lambda>p d. (Inr (), d)),
      createTableIfNotExists = (\<lambda>t d. (Inr (), d)),
      insertVector = (\<lambda>t i v d. (Inr True, memoryInsert t i v d)),
      searchSimilar = (\<lambda>t v k d. (Inr (memoryIds t d), d)),
      databaseClose = (\<lambda>d. (Inr (), d)),
      mysqlInitialize = (\<lambda>st. (Inr (), st)),
      createDocumentsTable = (\<lambda>t st. (Inr (), st)),
      insertDocument = stubInsertDocument,
      getDocumentsByIds = stubGetDocumentsByIds,
      mysqlUpdateDocument = MySQLDatabase_updateDocument stubMysql2,
      mysqlDeleteDocument = stubDeleteDocument,
      mysqlClose = (\<lambda>st. (Inr (), st))\<rparr>"

text \<open>
  An initialized hybrid module holding one document, id 1, with content
  \<open>old content\<close> and the vector the embedding double gives for it.
\<close>

definition stubHybridModule :: "(unit, memoryStore, memoryRows MySQLDatabase) HybridRAGModule" where
  "stubHybridModule =
     \<lparr>modelPath = js ''./model.gguf'', databasePath = js ''./vectors.db'', initialized = True,
      embeddingService = (),
      databaseService = [(JStr (js ''docs''), JNum (Num 1), [Num 11])],
      calls = [],
      mysqlDatabase =
        \<lparr>pool = True, mysqlInitialized = True,
         server = [(JNum (Num 1), JStr (js ''old content''))]\<rparr>\<rparr>"

text \<open>
  A relational database whose \<open>initialize\<close> rejects the way
  \<open>MySQLDatabase.initialize\<close> does when the server refuses the connection: with a
  \<open>RAGError\<close> of code \<open>DATABASE_CONNECTION_FAILED\<close> around the driver's error.
\<close>

definition refusedConnection :: jsexn where
  "refusedConnection =
     RAGError (js ''Failed to initialize MySQL database: connect ECONNREFUSED'')
       DATABASE_CONNECTION_FAILED (Some (JSError (js ''Error'') (js ''connect ECONNREFUSED'')))"

definition refusingHybridServices ::
  "(unit, memoryStore, memoryRows MySQLDatabase) hybridServices" where
  "refusingHybridServices =
     stubHybridServices\<lparr>mysqlInitialize := (\<lambda>st. (Inl refusedConnection, st))\<rparr>"

section \<open>Facts about the validators\<close>

lemmas validator_consts =
  js_def trim_def isWhiteSpace_def MAX_TABLE_NAME_LENGTH_def MAX_TEXT_LENGTH_def
  isAsciiLetter_def isTableNameChar_def reservedWords_def toUpperCase_def toUpperCaseChar_def




lemma validateSearchQuantity_raises_RAGError:
  "validateSearchQuantity v = Inl e \<Longrightarrow> instanceofRAGError e \<and> code e = INVALID_INPUT"
  by (auto simp: validateSearchQuantity_def split: jsval.splits if_splits)

text \<open>
  Whatever the field name: a string that is empty after trimming gets the message of the
  empty string.
\<close>

lemma validateText_blank:
  "trim s = [] \<Longrightarrow>
     validateText (JStr s) f = Inl (RAGError (f @ js '' cannot be empty'') INVALID_INPUT None)"
  by (simp add: validateText_def)

lemma tableNameChar_not_whiteSpace: "isTableNameChar c \<Longrightarrow> \<not> isWhiteSpace c"
  by (auto simp: isTableNameChar_def isAsciiLetter_def isWhiteSpace_def)

lemma asciiLetter_tableNameChar: "isAsciiLetter c \<Longrightarrow> isTableNameChar c"
  by (simp add: isTableNameChar_def)

lemma dropWhile_unchanged: "xs \<noteq> [] \<Longrightarrow> \<not> P (hd xs) \<Longrightarrow> dropWhile P xs = xs"
  by (cases xs) auto

lemma regex_all_tableNameChars:
  "TABLE_NAME_REGEX_test s \<Longrightarrow> s \<noteq> [] \<and> list_all isTableNameChar s"
  by (cases s) (auto simp: asciiLetter_tableNameChar)

text \<open>A name that matches the regular expression has nothing to trim.\<close>

lemma regex_trim_unchanged:
  assumes r: "TABLE_NAME_REGEX_test s"
  shows "trim s = s"
proof -
  from r have ne: "s \<noteq> []" and every: "list_all isTableNameChar s"
    using regex_all_tableNameChars by blast+
  have "hd s \<in> set s" and "last s \<in> set s"
    using ne by simp_all
  then have first: "\<not> isWhiteSpace (hd s)" and final: "\<not> isWhiteSpace (last s)"
    using every tableNameChar_not_whiteSpace by (auto simp: list_all_iff)
  have atStart: "dropWhile isWhiteSpace s = s"
    using ne first by (rule dropWhile_unchanged)
  have "hd (rev s) = last s"
    using ne by (simp add: hd_rev)
  then have atEnd: "dropWhile isWhiteSpace (rev s) = rev s"
    using ne final by (intro dropWhile_unchanged) simp_all
  show ?thesis
    by (simp add: trim_def atStart atEnd)
qed

section \<open>Facts about the orchestrator\<close>

lemmas orchestrator_defs =
  embed_def embedTry_def save_def saveTry_def search_def searchTry_def
  initialize_def close_def vectorSearch_def
  callEmbed_def callCreateTableIfNotExists_def callInsertVector_def callSearchSimilar_def
  callEmbeddingInitialize_def callDatabaseInitialize_def callEmbeddingClose_def
  callDatabaseClose_def

lemmas hybrid_defs =
  hybridInitialize_def hybridInitializeTry_def hybridClose_def hybridCloseTry_def
  saveDocument_def saveDocumentTry_def searchDocuments_def searchDocumentsTry_def
  updateDocument_def updateDocumentTry_def deleteDocument_def getDocument_def
  hybridEmbed_def hybridEmbedTry_def
  callMysqlInitialize_def callMysqlClose_def callCreateDocumentsTable_def
  callInsertDocument_def callGetDocumentsByIds_def callMysqlUpdateDocument_def
  callMysqlDeleteDocument_def

lemmas stub_defs =
  stubServices_def stubModule_def stubEmbed_def memoryInsert_def memoryIds_def
  stubHybridServices_def stubHybridModule_def stubMysql2_def stubExecuteUpdate_def
  stubInsertDocument_def stubGetDocumentsByIds_def stubDeleteDocument_def
  sqliteServices_def sqliteModule_def failingDriver_def
  refusingHybridServices_def refusedConnection_def


lemma rethrowOrWrap_is_RAGError: "instanceofRAGError (rethrowOrWrap p c e)"
  by (simp add: rethrowOrWrap_def)

text \<open>
  It wraps anything else once, under the code of the operation, and keeps the thrown
  value as the cause when that value is an \<open>Error\<close>.
\<close>

lemma rethrowOrWrap_foreign:
  "\<not> instanceofRAGError e \<Longrightarrow>
     rethrowOrWrap p c e = RAGError (p @ messageOrUnknown e) c (errorOrUndefined e)"
  by (simp add: rethrowOrWrap_def)

lemma readLength_defined:
  "v \<noteq> JNull \<Longrightarrow> v \<noteq> JUndefined \<Longrightarrow> \<exists>n. readLength v = Inr n"
  by (cases v) simp_all

section \<open>The claims\<close>

subsection \<open>C1: the messages of validateText for empty and blank input\<close>

text \<open>
  C1. The claim: an empty string is refused with "cannot be empty", and a non-empty
  string that trims to the empty string with "cannot be empty or whitespace only", so
  that the two cases can be told apart. The source throws the same message,
  \<open>`${fieldName} cannot be empty`\<close>, in both branches: on three spaces and on the
  empty string \<open>validateText\<close> gives the same error, which is not the
  "whitespace only" one that the validator's own unit test expects and that
  \<open>validateTableName\<close> uses in the same place.
\<close>

theorem validateText_whitespace_message:
  "validateText (JStr (js ''   '')) (js ''text'') =
     Inl (RAGError (js ''text cannot be empty'') INVALID_INPUT None) \<and>
   validateText (JStr (js '''')) (js ''text'') =
     Inl (RAGError (js ''text cannot be empty'') INVALID_INPUT None) \<and>
   js ''text cannot be empty'' \<noteq> js ''text cannot be empty or whitespace only'' \<and>
   validateTableName (JStr (js ''   '')) =
     Inl (RAGError (js ''Table name cannot be empty or whitespace only'') INVALID_INPUT None)"
  by (simp add: validateText_def validateTableName_def validator_consts)

theorem validateText_whitespace_message_witness:
  "validateText (JStr (js ''   '')) (js ''text'') = validateText (JStr (js '''')) (js ''text'')"
  using validateText_whitespace_message by simp

subsection \<open>C2: the shape of the errors of embed, save and search\<close>

text \<open>
  C2. The claim: whatever the request, also one whose text is missing, null or no
  string, a failure of \<open>embed\<close>, \<open>save\<close> or \<open>search\<close> reaches the caller as a
  \<open>RAGError\<close>. Each of the three methods reads \<open>request.text.length\<close> for its debug
  log before its \<open>try\<close> block: on an initialized module a request whose text is
  \<open>null\<close>, or that has no text at all, is answered with the \<open>TypeError\<close> of that read,
  which no \<open>catch\<close> block sees. The \<open>embed\<close> of the hybrid module, which has no such
  log line, answers the same request with the validator's \<open>RAGError\<close>.
\<close>

theorem null_text_escapes_taxonomy:
  "fst (embed stubServices (emptyObject(''text'' := JNull)) stubModule) =
     Inl (JSError (js ''TypeError'') (js ''Cannot read properties of null (reading 'length')'')) \<and>
   fst (save stubServices
          (emptyObject(''id'' := JNum (Num 1), ''text'' := JNull, ''tablename'' := JStr (js ''docs'')))
          stubModule) =
     Inl (JSError (js ''TypeError'') (js ''Cannot read properties of null (reading 'length')'')) \<and>
   fst (search stubServices
          (emptyObject(''tablename'' := JStr (js ''docs''), ''qty'' := JNum (Num 5))) stubModule) =
     Inl (JSError (js ''TypeError'')
            (js ''Cannot read properties of undefined (reading 'length')'')) \<and>
   fst (hybridEmbed stubHybridServices (emptyObject(''text'' := JNull)) stubHybridModule) =
     Inl (RAGError (js ''text must be a string'') INVALID_INPUT None)"
  by (simp add: embed_def save_def search_def hybridEmbed_def hybridEmbedTry_def
      validateEmbedRequest_def validateText_def rethrowOrWrap_def
      stubModule_def stubHybridModule_def cannotReadLength_def emptyObject_def js_def)

theorem null_text_escapes_taxonomy_witness:
  "\<exists>e. fst (embed stubServices (emptyObject(''text'' := JNull)) stubModule) = Inl e \<and>
        \<not> instanceofRAGError e"
  using null_text_escapes_taxonomy by simp

text \<open>
  Where the length of the text can be read (any text but \<open>null\<close> and \<open>undefined\<close>),
  every failure of the three methods is a \<open>RAGError\<close>.
\<close>

lemma failures_are_RAGErrors:
  assumes "request ''text'' \<noteq> JNull" and "request ''text'' \<noteq> JUndefined"
  shows "(fst (embed S request m) = Inl e \<longrightarrow> instanceofRAGError e) \<and>
         (fst (save S request m) = Inl e \<longrightarrow> instanceofRAGError e) \<and>
         (fst (search S request m) = Inl e \<longrightarrow> instanceofRAGError e)"
proof -
  obtain n where n: "readLength (request ''text'') = Inr n"
    using assms readLength_defined by blast
  have "fst (embed S request m) = Inl e \<longrightarrow> instanceofRAGError e"
    using n rethrowOrWrap_is_RAGError
    by (auto simp: embed_def notInitialized_def split: sum.splits prod.splits)
  moreover have "fst (save S request m) = Inl e \<longrightarrow> instanceofRAGError e"
    using n rethrowOrWrap_is_RAGError
    by (auto simp: save_def notInitialized_def split: sum.splits prod.splits)
  moreover have "fst (search S request m) = Inl e \<longrightarrow> instanceofRAGError e"
    using n rethrowOrWrap_is_RAGError
    by (auto simp: search_def notInitialized_def split: sum.splits prod.splits)
  ultimately show ?thesis by blast
qed

subsection \<open>C3: taxonomy errors pass unchanged, foreign errors are wrapped once\<close>

text \<open>
  C3. The claim: during \<open>initialize\<close>, \<open>embed\<close>, \<open>save\<close> and \<open>search\<close> an error that
  is already a \<open>RAGError\<close> reaches the caller unchanged, never wrapped again at a layer
  in between, and a foreign error is wrapped exactly once. The \<open>catch\<close> blocks of
  \<open>RAGModule\<close> and of \<open>SQLiteVectorSearchService.search\<close> test
  \<open>error instanceof RAGError\<close> and rethrow; the one of
  \<open>SQLiteVectorDatabase.initialize\<close> does not. When the driver reports
  \<open>new Error('Connection failed')\<close>, the connection callback wraps it into a
  \<open>RAGError\<close>, the \<open>catch\<close> block of the same method wraps that \<open>RAGError\<close> again, and
  \<open>RAGModule.initialize\<close> hands the result to the caller: the driver's error sits under
  two layers, and the first \<open>RAGError\<close> did not arrive unchanged. The \<open>catch\<close> block of
  \<open>HybridRAGModule.initialize\<close> has no test either, and turns a
  \<open>DATABASE_CONNECTION_FAILED\<close> error of the relational database into a
  \<open>MODEL_LOAD_FAILED\<close> one.
\<close>

theorem initialize_rewraps_taxonomy_error:
  "fst (initialize (sqliteServices failingDriver) sqliteModule) =
     Inl (RAGError
            (js ''Failed to initialize database: Failed to connect to database: Connection failed'')
            DATABASE_CONNECTION_FAILED
            (Some (RAGError (js ''Failed to connect to database: Connection failed'')
                     DATABASE_CONNECTION_FAILED
                     (Some (JSError (js ''Error'') (js ''Connection failed'')))))) \<and>
   fst (hybridInitialize refusingHybridServices (stubHybridModule\<lparr>initialized := False\<rparr>)) =
     Inl (RAGError
            (js ''Failed to initialize Hybrid RAG module: Failed to initialize MySQL database: connect ECONNREFUSED'')
            MODEL_LOAD_FAILED (Some refusedConnection))"
  by (simp add: initialize_def callEmbeddingInitialize_def callDatabaseInitialize_def
      hybridInitialize_def hybridInitializeTry_def callMysqlInitialize_def
      sqliteServices_def failingDriver_def sqliteModule_def
      stubHybridServices_def stubHybridModule_def refusingHybridServices_def
      refusedConnection_def
      SQLiteVectorDatabase_initialize_def SQLiteVectorDatabase_initializeTry_def
      wrapAlways_def rethrowOrWrap_def messageOrUnknown_def errorOrUndefined_def js_def)

theorem initialize_rewraps_taxonomy_error_witness:
  "\<exists>e inner. fst (initialize (sqliteServices failingDriver) sqliteModule) = Inl e \<and>
        cause e = Some inner \<and> instanceofRAGError inner \<and> message inner \<noteq> message e"
  using initialize_rewraps_taxonomy_error by (simp add: js_def)

subsection \<open>C4: the gate on the initialized flag\<close>




subsection \<open>C5: save validates before it calls anything\<close>







subsection \<open>C6: the grammar of validateTableName\<close>

text \<open>
  C6. The claim: a string that matches \<open>^[A-Za-z][A-Za-z0-9_-]*$\<close>, is at most 64
  long and is not one of 21 reserved words is returned unchanged, and every other
  string is refused. The validator trims first and tests the trimmed name: a name
  with blanks around it does not match the expression, and is accepted. The reserved
  list of the source has 22 words.
\<close>

theorem validateTableName_untrimmed_counterexample:
  "\<not> TABLE_NAME_REGEX_test (js ''  valid_table_name  '') \<and>
   validateTableName (JStr (js ''  valid_table_name  '')) = Inr (js ''valid_table_name'') \<and>
   length reservedWords \<noteq> 21"
  by (simp add: validateTableName_def validator_consts)

text \<open>
  C6, amended. \<open>validateTableName\<close> is characterized by the grammar applied to the
  trimmed input: a string whose trimmed form matches \<open>^[A-Za-z][A-Za-z0-9_-]*$\<close>, is
  at most 64 long and is not, in upper case, one of the 22 reserved words is answered
  with its trimmed form; every other string, and every value that is no string, is
  refused with an \<open>INVALID_INPUT\<close> error. A string that itself matches the expression
  has nothing to trim, and is returned unchanged.
\<close>

theorem validateTableName_grammar:
  "(TABLE_NAME_REGEX_test (trim s) \<and> length (trim s) \<le> 64 \<and>
      toUpperCase (trim s) \<notin> set reservedWords
      \<longrightarrow> validateTableName (JStr s) = Inr (trim s)) \<and>
   (\<not> (TABLE_NAME_REGEX_test (trim s) \<and> length (trim s) \<le> 64 \<and>
         toUpperCase (trim s) \<notin> set reservedWords)
      \<longrightarrow> (\<exists>msg. validateTableName (JStr s) = Inl (RAGError msg INVALID_INPUT None))) \<and>
   (TABLE_NAME_REGEX_test s \<longrightarrow> trim s = s) \<and>
   ((\<forall>t. v \<noteq> JStr t) \<longrightarrow>
      validateTableName v =
        Inl (RAGError (js ''Table name must be a string'') INVALID_INPUT None)) \<and>
   length reservedWords = 22 \<and> distinct reservedWords"
proof (intro conjI impI)
  assume ok: "TABLE_NAME_REGEX_test (trim s) \<and> length (trim s) \<le> 64 \<and>
      toUpperCase (trim s) \<notin> set reservedWords"
  then have "trim s \<noteq> []"
    by (cases "trim s") auto
  moreover from this have "s \<noteq> []"
    by (auto simp: trim_def)
  ultimately show "validateTableName (JStr s) = Inr (trim s)"
    using ok by (simp add: validateTableName_def Let_def MAX_TABLE_NAME_LENGTH_def)
next
  assume "\<not> (TABLE_NAME_REGEX_test (trim s) \<and> length (trim s) \<le> 64 \<and>
      toUpperCase (trim s) \<notin> set reservedWords)"
  then show "\<exists>msg. validateTableName (JStr s) = Inl (RAGError msg INVALID_INPUT None)"
    by (auto simp: validateTableName_def Let_def MAX_TABLE_NAME_LENGTH_def)
next
  assume "TABLE_NAME_REGEX_test s"
  then show "trim s = s"
    by (rule regex_trim_unchanged)
next
  assume "\<forall>t. v \<noteq> JStr t"
  then show "validateTableName v =
      Inl (RAGError (js ''Table name must be a string'') INVALID_INPUT None)"
    by (cases v) (simp_all add: validateTableName_def)
next
  show "length reservedWords = 22"
    by (simp add: reservedWords_def)
next
  show "distinct reservedWords"
    by (simp add: reservedWords_def js_def)
qed

theorem validateTableName_grammar_witness:
  "validateTableName (JStr (js ''  valid-table_1  '')) = Inr (js ''valid-table_1'') \<and>
   (\<exists>msg. validateTableName (JStr (js ''select'')) = Inl (RAGError msg INVALID_INPUT None)) \<and>
   trim (js ''docs'') = js ''docs'' \<and>
   validateTableName (JNum (Num 123)) =
     Inl (RAGError (js ''Table name must be a string'') INVALID_INPUT None)"
proof -
  have trimmed: "trim (js ''  valid-table_1  '') = js ''valid-table_1''"
    by (simp add: validator_consts)
  have good: "TABLE_NAME_REGEX_test (js ''valid-table_1'') \<and>
      length (js ''valid-table_1'') \<le> 64 \<and>
      toUpperCase (js ''valid-table_1'') \<notin> set reservedWords"
    by (simp add: validator_consts)
  have reserved: "\<not> (TABLE_NAME_REGEX_test (trim (js ''select'')) \<and>
      length (trim (js ''select'')) \<le> 64 \<and>
      toUpperCase (trim (js ''select'')) \<notin> set reservedWords)"
    by (simp add: validator_consts)
  have matches: "TABLE_NAME_REGEX_test (js ''docs'')"
    by (simp add: validator_consts)
  have number: "\<forall>t. JNum (Num 123) \<noteq> JStr t"
    by simp
  from validateTableName_grammar [of "js ''  valid-table_1  ''" "JNum (Num 123)"] trimmed good
  have one: "validateTableName (JStr (js ''  valid-table_1  '')) = Inr (js ''valid-table_1'')"
    and four: "validateTableName (JNum (Num 123)) =
     Inl (RAGError (js ''Table name must be a string'') INVALID_INPUT None)"
    using number by simp_all
  from validateTableName_grammar [of "js ''select''" "JNum (Num 123)"] reserved
  have two: "\<exists>msg. validateTableName (JStr (js ''select'')) =
      Inl (RAGError msg INVALID_INPUT None)"
    by blast
  from validateTableName_grammar [of "js ''docs''" "JNum (Num 123)"] matches
  have three: "trim (js ''docs'') = js ''docs''"
    by blast
  show ?thesis
    using one two three four by blast
qed

subsection \<open>C7: updateDocument and the stored vector\<close>

text \<open>
  C7. The claim: \<open>updateDocument\<close> embeds and stores the vector again exactly when
  the content is among the updated fields (and the relational update reported a
  change), also when the new content is the empty string. The guard of the source is
  \<open>updated && updates.content\<close>, the truthiness of the new content, whereas
  \<open>MySQLDatabase.updateDocument\<close> tests \<open>updates.content !== undefined\<close>: for
  \<open>{content: ''}\<close> the relational row is rewritten and reported as changed, and no
  embedding and no vector insertion follow. On a module holding document 1 with the
  vector of its old content, the update to the empty content returns \<open>true\<close>, the row
  holds the empty content, the only collaborator call is the relational update, and the
  vector database still holds the old vector. With a non-empty content the vector is
  replaced.
\<close>

theorem updateDocument_empty_content_stale:
  "fst (updateDocument stubHybridServices (JStr (js ''docs'')) (JNum (Num 1))
          (emptyObject(''content'' := JStr [])) stubHybridModule) = Inr True \<and>
   server (mysqlDatabase (snd (updateDocument stubHybridServices (JStr (js ''docs''))
          (JNum (Num 1)) (emptyObject(''content'' := JStr [])) stubHybridModule))) =
     [(JNum (Num 1), JStr [])] \<and>
   databaseService (snd (updateDocument stubHybridServices (JStr (js ''docs'')) (JNum (Num 1))
          (emptyObject(''content'' := JStr [])) stubHybridModule)) =
     [(JStr (js ''docs''), JNum (Num 1), [Num 11])] \<and>
   calls (snd (updateDocument stubHybridServices (JStr (js ''docs'')) (JNum (Num 1))
          (emptyObject(''content'' := JStr [])) stubHybridModule)) =
     [MysqlUpdateDocument (JStr (js ''docs'')) (JNum (Num 1))] \<and>
   databaseService (snd (updateDocument stubHybridServices (JStr (js ''docs'')) (JNum (Num 1))
          (emptyObject(''content'' := JStr (js ''new''))) stubHybridModule)) =
     [(JStr (js ''docs''), JNum (Num 1), [Num 3])]"
  by (simp add: updateDocument_def updateDocumentTry_def callMysqlUpdateDocument_def
      callEmbed_def callInsertVector_def
      stubHybridServices_def stubHybridModule_def MySQLDatabase_updateDocument_def
      updateFields_def stubMysql2_def stubExecuteUpdate_def stubEmbed_def memoryInsert_def
      emptyObject_def js_def)

theorem updateDocument_empty_content_stale_witness:
  "list_all (\<lambda>c. \<not> isVectorStoreWrite c)
     (calls (snd (updateDocument stubHybridServices (JStr (js ''docs'')) (JNum (Num 1))
          (emptyObject(''content'' := JStr [])) stubHybridModule)))"
  using updateDocument_empty_content_stale by simp

text \<open>
  What does hold for every collaborator: without a truthy content nothing is embedded
  or stored, and with one (a non-empty string) and a reported change the new content is
  embedded.
\<close>

lemma updateDocument_without_truthy_content:
  assumes "initialized m" and "\<not> truthy (updates ''content'')"
  shows "databaseService (snd (updateDocument S t i updates m)) = databaseService m \<and>
         embeddingService (snd (updateDocument S t i updates m)) = embeddingService m \<and>
         calls (snd (updateDocument S t i updates m)) = calls m @ [MysqlUpdateDocument t i]"
  using assms
  by (auto simp: updateDocument_def updateDocumentTry_def callMysqlUpdateDocument_def
      split: sum.splits prod.splits)

lemma updateDocument_with_truthy_content:
  assumes "initialized m" and "truthy (updates ''content'')"
    and "fst (mysqlUpdateDocument S t i updates (mysqlDatabase m)) = Inr True"
  shows "\<exists>cs. calls (snd (updateDocument S t i updates m)) =
           calls m @ [MysqlUpdateDocument t i, EmbeddingEmbed (updates ''content'')] @ cs"
  using assms
  by (auto simp: updateDocument_def updateDocumentTry_def callMysqlUpdateDocument_def
      callEmbed_def callInsertVector_def split: sum.splits prod.splits)

subsection \<open>C8: embed touches no store\<close>

text \<open>
  C8. For every request, every module and every behaviour of the collaborators,
  \<open>embed\<close> leaves the vector database as it was, and the only collaborator call it can
  add to the record is one call of the embedding service: no table is created and no
  vector is inserted, whether \<open>embed\<close> succeeds or fails. The same holds for the
  \<open>embed\<close> of the hybrid module, which leaves the relational database untouched as
  well.
\<close>

theorem embed_no_storage_effects:
  "databaseService (snd (embed S request m)) = databaseService m \<and>
   (calls (snd (embed S request m)) = calls m \<or>
    (\<exists>t. calls (snd (embed S request m)) = calls m @ [EmbeddingEmbed t])) \<and>
   databaseService (snd (hybridEmbed H request h)) = databaseService h \<and>
   mysqlDatabase (snd (hybridEmbed H request h)) = mysqlDatabase h \<and>
   (calls (snd (hybridEmbed H request h)) = calls h \<or>
    (\<exists>t. calls (snd (hybridEmbed H request h)) = calls h @ [EmbeddingEmbed t]))"
  by (auto simp: embed_def embedTry_def hybridEmbed_def hybridEmbedTry_def callEmbed_def
      split: sum.splits prod.splits)

theorem embed_no_storage_effects_witness:
  "databaseService (snd (embed stubServices (emptyObject(''text'' := JStr (js ''x''))) stubModule))
     = [] \<and>
   databaseService (snd (hybridEmbed stubHybridServices (emptyObject(''text'' := JStr (js ''x'')))
      stubHybridModule)) = [(JStr (js ''docs''), JNum (Num 1), [Num 11])] \<and>
   server (mysqlDatabase (snd (hybridEmbed stubHybridServices
      (emptyObject(''text'' := JStr (js ''x''))) stubHybridModule))) =
     [(JNum (Num 1), JStr (js ''old content''))]"
  using embed_no_storage_effects [of stubServices "emptyObject(''text'' := JStr (js ''x''))"
      stubModule stubHybridServices stubHybridModule]
  by (simp add: stubModule_def stubHybridModule_def)

subsection \<open>C9: the lifecycle\<close>

text \<open>
  C9. \<open>initialize\<close> on an initialized module returns at once and leaves the module as
  it was (no collaborator is called, the flag stays set); \<open>close\<close> on a module that is
  not initialized returns at once and leaves the module as it was; and when
  \<open>initialize\<close> fails, the module was not initialized before and is not initialized
  after. The same three facts hold for the hybrid module.
\<close>

theorem lifecycle_noops:
  "(initialized m \<longrightarrow> initialize S m = (Inr (), m)) \<and>
   (\<not> initialized m \<longrightarrow> close S m = (Inr (), m)) \<and>
   (\<forall>e. fst (initialize S m) = Inl e \<longrightarrow>
        \<not> initialized m \<and> \<not> initialized (snd (initialize S m))) \<and>
   (initialized h \<longrightarrow> hybridInitialize H h = (Inr (), h)) \<and>
   (\<not> initialized h \<longrightarrow> hybridClose H h = (Inr (), h)) \<and>
   (\<forall>e. fst (hybridInitialize H h) = Inl e \<longrightarrow>
        \<not> initialized h \<and> \<not> initialized (snd (hybridInitialize H h)))"
  by (auto simp: orchestrator_defs hybrid_defs split: sum.splits prod.splits if_splits)

text \<open>
  On the test doubles: a second \<open>initialize\<close> and a \<open>close\<close> before \<open>initialize\<close>
  change nothing, and the \<open>initialize\<close> that fails on the database connection leaves
  the flag unset.
\<close>

theorem lifecycle_noops_witness:
  "initialize stubServices stubModule = (Inr (), stubModule) \<and>
   close stubServices (stubModule\<lparr>initialized := False\<rparr>) =
     (Inr (), stubModule\<lparr>initialized := False\<rparr>) \<and>
   \<not> initialized (snd (initialize (sqliteServices failingDriver) sqliteModule)) \<and>
   hybridInitialize stubHybridServices stubHybridModule = (Inr (), stubHybridModule) \<and>
   hybridClose stubHybridServices (stubHybridModule\<lparr>initialized := False\<rparr>) =
     (Inr (), stubHybridModule\<lparr>initialized := False\<rparr>) \<and>
   \<not> initialized (snd (hybridInitialize refusingHybridServices
        (stubHybridModule\<lparr>initialized := False\<rparr>)))"
proof -
  have on: "initialized stubModule" "initialized stubHybridModule"
    by (simp_all add: stubModule_def stubHybridModule_def)
  have off: "\<not> initialized (stubModule\<lparr>initialized := False\<rparr>)"
    "\<not> initialized (stubHybridModule\<lparr>initialized := False\<rparr>)"
    by simp_all
  have fails: "\<exists>e. fst (initialize (sqliteServices failingDriver) sqliteModule) = Inl e"
    by (simp add: initialize_def callEmbeddingInitialize_def callDatabaseInitialize_def
        sqliteServices_def failingDriver_def sqliteModule_def
        SQLiteVectorDatabase_initialize_def SQLiteVectorDatabase_initializeTry_def)
  have hybridFails: "\<exists>e. fst (hybridInitialize refusingHybridServices
        (stubHybridModule\<lparr>initialized := False\<rparr>)) = Inl e"
    by (simp add: hybridInitialize_def hybridInitializeTry_def callEmbeddingInitialize_def
        callDatabaseInitialize_def callMysqlInitialize_def refusingHybridServices_def
        stubHybridServices_def stubHybridModule_def)
  have one: "initialize stubServices stubModule = (Inr (), stubModule)"
    and four: "hybridInitialize stubHybridServices stubHybridModule = (Inr (), stubHybridModule)"
    using lifecycle_noops [of stubModule stubServices stubHybridModule stubHybridServices] on
    by blast+
  have two: "close stubServices (stubModule\<lparr>initialized := False\<rparr>) =
      (Inr (), stubModule\<lparr>initialized := False\<rparr>)"
    and five: "hybridClose stubHybridServices (stubHybridModule\<lparr>initialized := False\<rparr>) =
      (Inr (), stubHybridModule\<lparr>initialized := False\<rparr>)"
    using lifecycle_noops [of "stubModule\<lparr>initialized := False\<rparr>" stubServices
        "stubHybridModule\<lparr>initialized := False\<rparr>" stubHybridServices] off
    by blast+
  have three: "\<not> initialized (snd (initialize (sqliteServices failingDriver) sqliteModule))"
    and six: "\<not> initialized (snd (hybridInitialize refusingHybridServices
        (stubHybridModule\<lparr>initialized := False\<rparr>)))"
    using lifecycle_noops [of sqliteModule "sqliteServices failingDriver"
        "stubHybridModule\<lparr>initialized := False\<rparr>" refusingHybridServices] fails hybridFails
    by blast+
  show ?thesis
    using one two three four five six by blast
qed

subsection \<open>C10: deleteDocument leaves the vector database alone\<close>

text \<open>
  C10. On an initialized hybrid module, for every tablename and id and every
  behaviour of the collaborators, \<open>deleteDocument\<close> calls the relational database's
  delete and nothing else: the relational database is what that delete leaves, the
  vector database and the embedding service are as they were, and so every later
  similarity query on the vector database is answered as it would have been before
  the deletion.
\<close>

theorem deleteDocument_frame:
  assumes "initialized m"
  shows "databaseService (snd (deleteDocument S t i m)) = databaseService m \<and>
         embeddingService (snd (deleteDocument S t i m)) = embeddingService m \<and>
         mysqlDatabase (snd (deleteDocument S t i m)) =
           snd (mysqlDeleteDocument S t i (mysqlDatabase m)) \<and>
         calls (snd (deleteDocument S t i m)) = calls m @ [MysqlDeleteDocument t i] \<and>
         searchSimilar S tn q k (databaseService (snd (deleteDocument S t i m))) =
           searchSimilar S tn q k (databaseService m)"
  using assms
  by (auto simp: deleteDocument_def callMysqlDeleteDocument_def split: sum.splits prod.splits)

text \<open>
  On the test double holding document 1: after \<open>deleteDocument\<close> the relational rows
  are gone, the vector of id 1 is still stored, and a similarity query still answers
  with id 1.
\<close>

theorem deleteDocument_frame_witness:
  "databaseService (snd (deleteDocument stubHybridServices (JStr (js ''docs'')) (JNum (Num 1))
      stubHybridModule)) = [(JStr (js ''docs''), JNum (Num 1), [Num 11])] \<and>
   server (mysqlDatabase (snd (deleteDocument stubHybridServices (JStr (js ''docs''))
      (JNum (Num 1)) stubHybridModule))) = [] \<and>
   fst (searchSimilar stubHybridServices (JStr (js ''docs'')) [Num 3] (JNum (Num 5))
      (databaseService (snd (deleteDocument stubHybridServices (JStr (js ''docs''))
         (JNum (Num 1)) stubHybridModule)))) = Inr [JNum (Num 1)]"
proof -
  have init: "initialized stubHybridModule"
    by (simp add: stubHybridModule_def)
  show ?thesis
    using deleteDocument_frame [OF init, of stubHybridServices "JStr (js ''docs'')"
        "JNum (Num 1)" "JStr (js ''docs'')" "[Num 3]" "JNum (Num 5)"]
    by (simp add: stubHybridModule_def stubHybridServices_def stubDeleteDocument_def
        memoryIds_def)
qed

end
